theory Spec2Isabelle
  imports Complex_Main
begin

section \<open>Numeric arrays\<close>

text \<open>
  The module \<^verbatim>\<open>prody/measure.py\<close> computes with NumPy arrays of float64. Here a float64
  is a real number: rounding is not modelled, and neither are the values \<^verbatim>\<open>inf\<close> and
  \<^verbatim>\<open>nan\<close> that NumPy returns for a division by a zero float. Where such a division
  decides a comparison (the anisotropy filters of \<^verbatim>\<open>calcADPAxes\<close>) the outcome of the
  comparison is written out; elsewhere the theorems assume non-zero divisors.

  An array of shape (3,) is a triple, an array of shape (3,3) a triple of rows, a
  coordinate set of shape (N,3) a list of N rows and a weight array of shape (N,1) a list
  of N numbers.

  A function whose name begins with an underscore in the module, such as
  \<^verbatim>\<open>_calcRMSD\<close>, has the prefix \<open>p_\<close> here.
\<close>

type_synonym vec3 = "real \<times> real \<times> real"
type_synonym mat3 = "vec3 \<times> vec3 \<times> vec3"

definition vzero :: vec3 where
  "vzero = (0, 0, 0)"

fun vadd :: "vec3 \<Rightarrow> vec3 \<Rightarrow> vec3" where
  "vadd (a, b, c) (d, e, f) = (a + d, b + e, c + f)"

fun vsub :: "vec3 \<Rightarrow> vec3 \<Rightarrow> vec3" where
  "vsub (a, b, c) (d, e, f) = (a - d, b - e, c - f)"

fun vmul :: "vec3 \<Rightarrow> vec3 \<Rightarrow> vec3" where
  "vmul (a, b, c) (d, e, f) = (a * d, b * e, c * f)"

fun vscale :: "real \<Rightarrow> vec3 \<Rightarrow> vec3" where
  "vscale k (a, b, c) = (k * a, k * b, k * c)"

fun vdivs :: "vec3 \<Rightarrow> real \<Rightarrow> vec3" where
  "vdivs (a, b, c) k = (a / k, b / k, c / k)"

text \<open>\<^verbatim>\<open>(x ** 2).sum()\<close> of one row.\<close>

fun sumsq :: "vec3 \<Rightarrow> real" where
  "sumsq (a, b, c) = a * a + b * b + c * c"

text \<open>\<^verbatim>\<open>arr.sum(axis=0)\<close> and \<^verbatim>\<open>arr.mean(0)\<close> of an (N,3) array.\<close>

fun vsum :: "vec3 list \<Rightarrow> vec3" where
  "vsum [] = vzero"
| "vsum (x # xs) = vadd x (vsum xs)"

definition mean0 :: "vec3 list \<Rightarrow> vec3" where
  "mean0 xs = vdivs (vsum xs) (real (length xs))"

text \<open>\<^verbatim>\<open>arr - com\<close> and \<^verbatim>\<open>arr + t\<close>: a (3,) array broadcast over the rows.\<close>

definition sub_rows :: "vec3 list \<Rightarrow> vec3 \<Rightarrow> vec3 list" where
  "sub_rows xs c = map (\<lambda>x. vsub x c) xs"

definition add_rows :: "vec3 list \<Rightarrow> vec3 \<Rightarrow> vec3 list" where
  "add_rows xs t = map (\<lambda>x. vadd x t) xs"

text \<open>\<^verbatim>\<open>arr * weights\<close> with weights of shape (N,1): row i is multiplied by weight i.\<close>

definition mul_col :: "vec3 list \<Rightarrow> real list \<Rightarrow> vec3 list" where
  "mul_col xs w = map2 (\<lambda>x k. vscale k x) xs w"

fun madd :: "mat3 \<Rightarrow> mat3 \<Rightarrow> mat3" where
  "madd (r0, r1, r2) (q0, q1, q2) = (vadd r0 q0, vadd r1 q1, vadd r2 q2)"

definition mzero :: mat3 where
  "mzero = (vzero, vzero, vzero)"

fun mdivs :: "mat3 \<Rightarrow> real \<Rightarrow> mat3" where
  "mdivs (r0, r1, r2) k = (vdivs r0 k, vdivs r1 k, vdivs r2 k)"

fun mscale :: "real \<Rightarrow> mat3 \<Rightarrow> mat3" where
  "mscale k (r0, r1, r2) = (vscale k r0, vscale k r1, vscale k r2)"

fun outer :: "vec3 \<Rightarrow> vec3 \<Rightarrow> mat3" where
  "outer (a, b, c) v = (vscale a v, vscale b v, vscale c v)"

text \<open>\<^verbatim>\<open>np.dot(A.T, B)\<close> for A and B of shape (N,3): the 3x3 sum of the outer products of
  corresponding rows.\<close>

fun dot_T :: "vec3 list \<Rightarrow> vec3 list \<Rightarrow> mat3" where
  "dot_T (a # as) (b # bs) = madd (outer a b) (dot_T as bs)"
| "dot_T _ _ = mzero"

text \<open>\<^verbatim>\<open>np.dot(v, M)\<close> for v of shape (3,), \<^verbatim>\<open>np.dot(A, B)\<close> for 3x3 arrays,
  \<^verbatim>\<open>np.dot(coords, M)\<close> for coords of shape (N,3), and \<^verbatim>\<open>M.T\<close>.\<close>

fun vecmat :: "vec3 \<Rightarrow> mat3 \<Rightarrow> vec3" where
  "vecmat (a, b, c) (r0, r1, r2) = vadd (vscale a r0) (vadd (vscale b r1) (vscale c r2))"

fun mmul :: "mat3 \<Rightarrow> mat3 \<Rightarrow> mat3" where
  "mmul (r0, r1, r2) M = (vecmat r0 M, vecmat r1 M, vecmat r2 M)"

definition dot_rows :: "vec3 list \<Rightarrow> mat3 \<Rightarrow> vec3 list" where
  "dot_rows xs M = map (\<lambda>x. vecmat x M) xs"

fun mT :: "mat3 \<Rightarrow> mat3" where
  "mT ((a, b, c), (d, e, f), (g, h, i)) = ((a, d, g), (b, e, h), (c, f, i))"

definition mident :: mat3 where
  "mident = ((1, 0, 0), (0, 1, 0), (0, 0, 1))"

text \<open>The determinant that \<^verbatim>\<open>linalg.det\<close> computes for a 3x3 array.\<close>

fun det3 :: "mat3 \<Rightarrow> real" where
  "det3 ((a, b, c), (d, e, f), (g, h, i)) =
     a * (e * i - f * h) - b * (d * i - f * g) + c * (d * h - e * g)"

text \<open>
  The singular value decomposition \<^verbatim>\<open>linalg.svd\<close> and the symmetric eigendecomposition
  \<^verbatim>\<open>linalg.eigh\<close> belong to the linear-algebra library, not to this module; they are
  parameters of the functions that call them. \<^verbatim>\<open>svd(M)\<close> returns \<^verbatim>\<open>(U, s, Vh)\<close>,
  \<^verbatim>\<open>eigh(M)\<close> returns \<^verbatim>\<open>(vals, vecs)\<close> with the eigenvalues ascending and the
  eigenvectors in the columns of \<^verbatim>\<open>vecs\<close>.
\<close>

type_synonym svd_fun = "mat3 \<Rightarrow> mat3 \<times> vec3 \<times> mat3"
type_synonym eigh_fun = "mat3 \<Rightarrow> vec3 \<times> mat3"

text \<open>The decomposition of a diagonal matrix whose diagonal is non-negative and
  non-increasing: both factors are the identity. It instantiates the parameter at concrete
  inputs whose covariance matrix is of that form.\<close>

fun svd_diagonal :: svd_fun where
  "svd_diagonal ((a, b, c), (d, e, f), (g, h, i)) = (mident, (a, e, i), mident)"

text \<open>The eigendecomposition of a diagonal matrix whose diagonal is ascending.\<close>

fun eigh_diagonal :: eigh_fun where
  "eigh_diagonal ((a, b, c), (d, e, f), (g, h, i)) = ((a, e, i), mident)"


section \<open>Python values and exceptions\<close>

datatype error = TypeError | ValueError | IndexError | AssertionError | ZeroDivisionError

text \<open>An \<^verbatim>\<open>ndarray\<close> of any shape, as its shape tuple and its entries in row-major
  order; an argument is an \<^verbatim>\<open>ndarray\<close> or some other object.\<close>

record ndarray =
  shape :: "nat list"
  data :: "real list"

datatype pyobj = Ndarray ndarray | NotNdarray

fun array_of_mat3 :: "mat3 \<Rightarrow> ndarray" where
  "array_of_mat3 ((a, b, c), (d, e, f), (g, h, i)) =
     \<lparr>shape = [3, 3], data = [a, b, c, d, e, f, g, h, i]\<rparr>"

fun array_of_vec3 :: "vec3 \<Rightarrow> ndarray" where
  "array_of_vec3 (a, b, c) = \<lparr>shape = [3], data = [a, b, c]\<rparr>"

definition mat3_of_array :: "ndarray \<Rightarrow> mat3 option" where
  "mat3_of_array arr =
     (if shape arr = [3, 3] then
        (case data arr of
           [a, b, c, d, e, f, g, h, i] \<Rightarrow> Some ((a, b, c), (d, e, f), (g, h, i))
         | _ \<Rightarrow> None)
      else None)"

definition vec3_of_array :: "ndarray \<Rightarrow> vec3 option" where
  "vec3_of_array arr =
     (if shape arr = [3] then
        (case data arr of [a, b, c] \<Rightarrow> Some (a, b, c) | _ \<Rightarrow> None)
      else None)"


section \<open>Transformation\<close>

text \<open>The two slots of the class; \<open>None\<close> is Python's \<^verbatim>\<open>None\<close>.\<close>

record Transformation =
  rotation_slot :: "ndarray option"
  translation_slot :: "ndarray option"

definition setRotation :: "Transformation \<Rightarrow> pyobj \<Rightarrow> error + Transformation" where
  "setRotation self rotation =
     (case rotation of
        NotNdarray \<Rightarrow> Inl TypeError
      | Ndarray arr \<Rightarrow>
          if shape arr \<noteq> [3, 3] then Inl TypeError
          else Inr (self\<lparr>rotation_slot := Some arr\<rparr>))"

definition setTranslation :: "Transformation \<Rightarrow> pyobj \<Rightarrow> error + Transformation" where
  "setTranslation self translation =
     (case translation of
        NotNdarray \<Rightarrow> Inl TypeError
      | Ndarray arr \<Rightarrow>
          if shape arr \<noteq> [3] then Inl TypeError
          else Inr (self\<lparr>translation_slot := Some arr\<rparr>))"

text \<open>\<^verbatim>\<open>Transformation.__init__\<close>: an exception of either setter leaves no object.\<close>

definition Transformation_init :: "pyobj \<Rightarrow> pyobj \<Rightarrow> error + Transformation" where
  "Transformation_init rotation translation =
     (case setRotation \<lparr>rotation_slot = None, translation_slot = None\<rparr> rotation of
        Inl e \<Rightarrow> Inl e
      | Inr self1 \<Rightarrow> setTranslation (self1\<lparr>translation_slot := None\<rparr>) translation)"

text \<open>\<^verbatim>\<open>_applyTransformation(t, coords)\<close> is \<^verbatim>\<open>t._translation + np.dot(coords, t._rotation)\<close>.\<close>

definition p_applyTransformation :: "Transformation \<Rightarrow> vec3 list \<Rightarrow> error + vec3 list" where
  "p_applyTransformation t coords =
     (case (rotation_slot t, translation_slot t) of
        (Some r, Some tr) \<Rightarrow>
          (case (mat3_of_array r, vec3_of_array tr) of
             (Some R, Some v) \<Rightarrow> Inr (add_rows (dot_rows coords R) v)
           | _ \<Rightarrow> Inl ValueError)
      | _ \<Rightarrow> Inl TypeError)"


section \<open>Optimal-rotation solver and batch superposition\<close>

text \<open>
  The first half of \<^verbatim>\<open>_calcTransformation\<close>: the two centroids and the covariance
  matrix. \<^verbatim>\<open>weights.sum()\<close> is \<open>sum_list w\<close>; \<^verbatim>\<open>np.dot(weights.T, weights)\<close> is a (1,1)
  array whose entry is the sum of the products of each weight with itself.
\<close>

definition centered_matrix ::
  "vec3 list \<Rightarrow> vec3 list \<Rightarrow> real list option \<Rightarrow> vec3 \<times> vec3 \<times> mat3" where
  "centered_matrix mob tar weights =
     (case weights of
        None \<Rightarrow>
          (let mob_com = mean0 mob;
               tar_com = mean0 tar;
               mob1 = sub_rows mob mob_com;
               tar1 = sub_rows tar tar_com;
               matrix = dot_T tar1 mob1
           in (mob_com, tar_com, matrix))
      | Some w \<Rightarrow>
          (let weights_sum = sum_list w;
               weights_dot = sum_list (map2 (*) w w);
               mob_com = vdivs (vsum (mul_col mob w)) weights_sum;
               tar_com = vdivs (vsum (mul_col tar w)) weights_sum;
               mob1 = sub_rows mob mob_com;
               tar1 = sub_rows tar tar_com;
               matrix = mdivs (dot_T (mul_col tar1 w) (mul_col mob1 w)) weights_dot
           in (mob_com, tar_com, matrix)))"

text \<open>The rotation built from a covariance matrix, as both \<^verbatim>\<open>_calcTransformation\<close> and
  \<^verbatim>\<open>_superpose\<close> build it.\<close>

definition rotation_of :: "svd_fun \<Rightarrow> mat3 \<Rightarrow> mat3" where
  "rotation_of svd matrix =
     (case svd matrix of
        (U, s, Vh) \<Rightarrow>
          (let Id = ((1, 0, 0), (0, 1, 0), (0, 0, sgn (det3 matrix)))
           in mmul (mT Vh) (mmul Id (mT U))))"

definition p_calcTransformation ::
  "svd_fun \<Rightarrow> vec3 list \<Rightarrow> vec3 list \<Rightarrow> real list option \<Rightarrow> error + Transformation" where
  "p_calcTransformation svd mob tar weights =
     (case centered_matrix mob tar weights of
        (mob_com, tar_com, matrix) \<Rightarrow>
          (let rotation = rotation_of svd matrix
           in Transformation_init (Ndarray (array_of_mat3 rotation))
                (Ndarray (array_of_vec3 (vsub tar_com (vecmat mob_com rotation))))))"

text \<open>
  \<^verbatim>\<open>_superpose(mobs, tar, weights, movs)\<close> overwrites \<^verbatim>\<open>mobs\<close>, or \<^verbatim>\<open>movs\<close> when it is
  given, frame by frame. The model returns the stack that was written. The argument
  \<^verbatim>\<open>weights\<close> is accepted and never read.
\<close>

definition superpose_frame :: "svd_fun \<Rightarrow> vec3 \<Rightarrow> vec3 list \<Rightarrow> vec3 list \<Rightarrow> vec3 list" where
  "superpose_frame svd tar_com tar_org mob =
     (let mob_com = mean0 mob;
          mob_org = sub_rows mob mob_com;
          matrix = dot_T tar_org mob_org;
          rotation = rotation_of svd matrix
      in add_rows (dot_rows mob_org rotation) tar_com)"

definition superpose_move ::
  "svd_fun \<Rightarrow> vec3 \<Rightarrow> vec3 list \<Rightarrow> vec3 list \<Rightarrow> vec3 list \<Rightarrow> vec3 list" where
  "superpose_move svd tar_com tar_org mob mov =
     (let mob_com = mean0 mob;
          mob_org = sub_rows mob mob_com;
          matrix = dot_T tar_org mob_org;
          rotation = rotation_of svd matrix
      in add_rows (dot_rows mov rotation) (vsub tar_com (vecmat mob_com rotation)))"

fun superpose_movs ::
  "svd_fun \<Rightarrow> vec3 \<Rightarrow> vec3 list \<Rightarrow> vec3 list list \<Rightarrow> vec3 list list \<Rightarrow> error + vec3 list list"
where
  "superpose_movs svd tar_com tar_org [] movs = Inr movs"
| "superpose_movs svd tar_com tar_org (mob # mobs) [] = Inl IndexError"
| "superpose_movs svd tar_com tar_org (mob # mobs) (mov # movs) =
     (case superpose_movs svd tar_com tar_org mobs movs of
        Inl e \<Rightarrow> Inl e
      | Inr rest \<Rightarrow> Inr (superpose_move svd tar_com tar_org mob mov # rest))"

definition p_superpose ::
  "svd_fun \<Rightarrow> vec3 list list \<Rightarrow> vec3 list \<Rightarrow> real list option \<Rightarrow> vec3 list list option
     \<Rightarrow> error + vec3 list list" where
  "p_superpose svd mobs tar weights movs =
     (let tar_com = mean0 tar;
          tar_org = sub_rows tar tar_com
      in (case movs of
            None \<Rightarrow> Inr (map (superpose_frame svd tar_com tar_org) mobs)
          | Some mv \<Rightarrow> superpose_movs svd tar_com tar_org mobs mv))"



section \<open>RMSD\<close>

text \<open>
  A coordinate argument is a single frame of shape (N,3) or a stack of shape (M,N,3); the
  stack carries N, which an empty stack still has. A weight argument of \<^verbatim>\<open>_calcRMSD\<close> has
  shape (N,1) or (M,N,1). A result is a scalar or a one-dimensional array.
\<close>

datatype coordsets = Frame "vec3 list" | Stack nat "vec3 list list"

datatype weight_array = W2 "real list" | W3 "real list list"

datatype measure = Scalar real | Array "real list"

fun vtotal :: "vec3 \<Rightarrow> real" where
  "vtotal (a, b, c) = a + b + c"

text \<open>\<^verbatim>\<open>arr.sum()\<close>, \<^verbatim>\<open>arr ** 2\<close> and \<^verbatim>\<open>(ref - t) ** 2\<close> for arrays of shape (N,3).\<close>

definition arr_sum :: "vec3 list \<Rightarrow> real" where
  "arr_sum xs = sum_list (map vtotal xs)"

definition squares :: "vec3 list \<Rightarrow> vec3 list" where
  "squares xs = map (\<lambda>x. vmul x x) xs"

definition sqdev :: "vec3 list \<Rightarrow> vec3 list \<Rightarrow> vec3 list" where
  "sqdev ref t = squares (map2 vsub ref t)"

text \<open>For a single target frame the weighted branch does not look at the rank of the
  weights: every (N,1) block of weights multiplies the squared deviations, and all weights
  are summed.\<close>

fun weighted_total :: "vec3 list \<Rightarrow> weight_array \<Rightarrow> real" where
  "weighted_total d (W2 w) = arr_sum (mul_col d w)"
| "weighted_total d (W3 ws) = sum_list (map (\<lambda>w. arr_sum (mul_col d w)) ws)"

fun weights_sum_all :: "weight_array \<Rightarrow> real" where
  "weights_sum_all (W2 w) = sum_list w"
| "weights_sum_all (W3 ws) = sum_list (map sum_list ws)"

text \<open>
  \<^verbatim>\<open>_calcRMSD(ref, tar, weights)\<close>, called by \<^verbatim>\<open>calcRMSD\<close> once the shapes agree: every
  frame has as many rows as \<^verbatim>\<open>ref\<close>, every block of weights as many entries, and a stack
  of weights as many blocks as the target has frames. \<^verbatim>\<open>1.0 / ref.shape[0]\<close> divides a
  Python float by a Python int and raises for an empty reference.
\<close>

definition p_calcRMSD :: "vec3 list \<Rightarrow> coordsets \<Rightarrow> weight_array option \<Rightarrow> error + measure" where
  "p_calcRMSD ref tar weights =
     (case weights of
        None \<Rightarrow>
          if length ref = 0 then Inl ZeroDivisionError
          else
            (let divByN = 1 / real (length ref)
             in (case tar of
                   Frame t \<Rightarrow> Inr (Scalar (sqrt (arr_sum (sqdev ref t) * divByN)))
                 | Stack n ts \<Rightarrow>
                     (let rmsd = map (\<lambda>t. arr_sum (sqdev ref t)) ts
                      in Inr (Array (map (\<lambda>x. sqrt (x * divByN)) rmsd)))))
      | Some wa \<Rightarrow>
          (case tar of
             Frame t \<Rightarrow>
               Inr (Scalar (sqrt (weighted_total (sqdev ref t) wa * (1 / weights_sum_all wa))))
           | Stack n ts \<Rightarrow>
               (case wa of
                  W2 w \<Rightarrow>
                    (let rmsd = map (\<lambda>t. arr_sum (mul_col (sqdev ref t) w)) ts
                     in Inr (Array (map (\<lambda>x. sqrt (x * (1 / sum_list w))) rmsd)))
                | W3 ws \<Rightarrow>
                    (let rmsd = map2 (\<lambda>t w. arr_sum (mul_col (sqdev ref t) w)) ts ws
                     in Inr (Array (map2 (\<lambda>x d. sqrt (x / d)) rmsd (map sum_list ws)))))))"


section \<open>Radius of gyration\<close>

text \<open>\<^verbatim>\<open>coords.shape[-2]\<close>.\<close>

fun n_atoms :: "coordsets \<Rightarrow> nat" where
  "n_atoms (Frame xs) = length xs"
| "n_atoms (Stack n fs) = n"

text \<open>
  \<^verbatim>\<open>coords * weights\<close> after \<^verbatim>\<open>weights = weights.flatten()\<close>: an (N,3) array times an
  array of shape (L,). NumPy aligns the trailing axes, 3 against L: a single weight
  multiplies every entry, three weights multiply the three columns, and any other L
  raises \<^verbatim>\<open>ValueError\<close> (operands could not be broadcast together).
\<close>

definition bcast_mul :: "vec3 list \<Rightarrow> real list \<Rightarrow> error + vec3 list" where
  "bcast_mul coords w =
     (case w of
        [a] \<Rightarrow> Inr (map (vscale a) coords)
      | [a, b, c] \<Rightarrow> Inr (map (vmul (a, b, c)) coords)
      | _ \<Rightarrow> Inl ValueError)"

text \<open>The body that \<^verbatim>\<open>calcRadiusOfGyration\<close> runs on one frame: \<^verbatim>\<open>com\<close> and \<^verbatim>\<open>d2sum\<close>.\<close>

definition gyration_d2sum :: "vec3 list \<Rightarrow> real list option \<Rightarrow> real \<Rightarrow> error + real" where
  "gyration_d2sum coords weights wsum =
     (case weights of
        None \<Rightarrow>
          (let com = mean0 coords
           in Inr (arr_sum (squares (sub_rows coords com))))
      | Some w \<Rightarrow>
          (case bcast_mul coords w of
             Inl e \<Rightarrow> Inl e
           | Inr cw \<Rightarrow>
               (let com = vdivs (mean0 cw) wsum
                in Inr (sum_list (map2 (*) (map vtotal (squares (sub_rows coords com))) w)))))"

fun gyration_frames :: "vec3 list list \<Rightarrow> real list option \<Rightarrow> real \<Rightarrow> error + real list" where
  "gyration_frames [] weights wsum = Inr []"
| "gyration_frames (c # cs) weights wsum =
     (case gyration_d2sum c weights wsum of
        Inl e \<Rightarrow> Inl e
      | Inr d \<Rightarrow>
          (case gyration_frames cs weights wsum of
             Inl e \<Rightarrow> Inl e
           | Inr ds \<Rightarrow> Inr (d # ds)))"

definition gyration_body :: "coordsets \<Rightarrow> real list option \<Rightarrow> real \<Rightarrow> error + measure" where
  "gyration_body coords weights wsum =
     (case coords of
        Frame c \<Rightarrow>
          (case gyration_d2sum c weights wsum of
             Inl e \<Rightarrow> Inl e
           | Inr d2sum \<Rightarrow> Inr (Scalar (sqrt (d2sum / wsum))))
      | Stack n cs \<Rightarrow>
          (case gyration_frames cs weights wsum of
             Inl e \<Rightarrow> Inl e
           | Inr rgyr \<Rightarrow> Inr (Array (map (\<lambda>d. sqrt (d / wsum)) rgyr))))"

text \<open>\<^verbatim>\<open>calcRadiusOfGyration(coords, weights)\<close> for an array argument; the weights are
  given as they are after \<^verbatim>\<open>flatten()\<close>.\<close>

definition calcRadiusOfGyration :: "coordsets \<Rightarrow> real list option \<Rightarrow> error + measure" where
  "calcRadiusOfGyration coords weights =
     (case weights of
        Some w \<Rightarrow>
          if length w \<noteq> n_atoms coords then Inl ValueError
          else gyration_body coords weights (sum_list w)
      | None \<Rightarrow> gyration_body coords weights (real (n_atoms coords)))"


section \<open>Anisotropic displacement axes\<close>

text \<open>One record of anisotropic temperature factors, in the order xx, yy, zz, xy, xz, yz,
  and the symmetric matrix \<^verbatim>\<open>element\<close> filled from it.\<close>

type_synonym anisou = "real \<times> real \<times> real \<times> real \<times> real \<times> real"

fun element_of :: "anisou \<Rightarrow> mat3" where
  "element_of (xx, yy, zz, xy, xz, yz) = ((xx, xy, xz), (xy, yy, yz), (xz, yz, zz))"

definition clamp0 :: "real \<Rightarrow> real" where
  "clamp0 x = (if x < 0 then 0 else x)"

fun vmap :: "(real \<Rightarrow> real) \<Rightarrow> vec3 \<Rightarrow> vec3" where
  "vmap g (a, b, c) = (g a, g b, g c)"

text \<open>\<^verbatim>\<open>vals * vecs\<close> multiplies column j by \<^verbatim>\<open>vals[j]\<close>; \<^verbatim>\<open>(A * B).sum(0)\<close> is the
  vector of the dot products of corresponding columns; \<^verbatim>\<open>x[[2,1,0]]\<close> and
  \<^verbatim>\<open>M[:, [2,1,0]]\<close> reverse the entries and the columns.\<close>

fun scale_cols :: "vec3 \<Rightarrow> mat3 \<Rightarrow> mat3" where
  "scale_cols v (r0, r1, r2) = (vmul v r0, vmul v r1, vmul v r2)"

fun col_dots :: "mat3 \<Rightarrow> mat3 \<Rightarrow> vec3" where
  "col_dots (r0, r1, r2) (q0, q1, q2) = vadd (vmul r0 q0) (vadd (vmul r1 q1) (vmul r2 q2))"

fun rev3 :: "vec3 \<Rightarrow> vec3" where
  "rev3 (a, b, c) = (c, b, a)"

fun rev_cols :: "mat3 \<Rightarrow> mat3" where
  "rev_cols (r0, r1, r2) = (rev3 r0, rev3 r1, rev3 r2)"

text \<open>The statements before the loop (atom 0) and the loop body (atom i, which reads the
  block stored for atom i-1): each yields the row of \<^verbatim>\<open>variances\<close> and the 3x3 block
  of \<^verbatim>\<open>axes\<close> of its atom.\<close>

definition first_atom :: "eigh_fun \<Rightarrow> anisou \<Rightarrow> vec3 \<times> mat3" where
  "first_atom eigh anisou =
     (case eigh (element_of anisou) of
        (vals, vecs) \<Rightarrow>
          (let vals1 = vmap clamp0 vals;
               vals2 = vmap sqrt vals1
           in (vals1, scale_cols vals2 vecs)))"

definition next_atom :: "eigh_fun \<Rightarrow> mat3 \<Rightarrow> anisou \<Rightarrow> vec3 \<times> mat3" where
  "next_atom eigh prev anisou =
     (case eigh (element_of anisou) of
        (vals, vecs) \<Rightarrow>
          (let vals1 = vmap clamp0 vals;
               vals2 = vmap sqrt vals1;
               vals3 = vmul vals2 (vmap sgn (col_dots vecs prev))
           in (vals1, scale_cols vals3 vecs)))"

fun axes_loop :: "eigh_fun \<Rightarrow> mat3 \<Rightarrow> anisou list \<Rightarrow> (vec3 \<times> mat3) list" where
  "axes_loop eigh prev [] = []"
| "axes_loop eigh prev (a # as) =
     (let r = next_atom eigh prev a in r # axes_loop eigh (snd r) as)"

text \<open>The keyword arguments that the function reads; \<open>None\<close> is an absent key.\<close>

record adp_kwargs =
  fract :: "real option"
  ratio :: "real option"
  ratio2 :: "real option"
  ratio3 :: "real option"

text \<open>
  The two comparisons of a quotient of floats with a threshold. For a zero divisor the
  quotient is \<^verbatim>\<open>nan\<close> (zero dividend), \<^verbatim>\<open>inf\<close> (positive) or \<^verbatim>\<open>-inf\<close> (negative), and
  every comparison with \<^verbatim>\<open>nan\<close> is false.
\<close>

definition div_gt :: "real \<Rightarrow> real \<Rightarrow> real \<Rightarrow> bool" where
  "div_gt a b r = (if b = 0 then 0 < a else r < a / b)"

definition div_le :: "real \<Rightarrow> real \<Rightarrow> real \<Rightarrow> bool" where
  "div_le a b r = (if b = 0 then a < 0 else a / b \<le> r)"

text \<open>\<^verbatim>\<open>axes * torf\<close> on the block of one atom: a true entry is 1, a false one 0.\<close>

definition mask_block :: "bool \<Rightarrow> mat3 \<Rightarrow> mat3" where
  "mask_block t M = mscale (if t then 1 else 0) M"

fun pick :: "nat \<Rightarrow> vec3 \<Rightarrow> real" where
  "pick j (a, b, c) = (if j = 0 then a else if j = 1 then b else c)"

definition fract_filter :: "real \<Rightarrow> vec3 list \<Rightarrow> mat3 list \<Rightarrow> error + mat3 list" where
  "fract_filter f variances axes =
     (if \<not> (33 / 100 < f \<and> f < 1) then Inl AssertionError
      else
        (let variances1 = map rev3 variances;
             torf = map (\<lambda>v. div_gt (pick 0 v) (vtotal v) f) variances1
         in Inr (map2 mask_block torf axes)))"

definition ratio_filter :: "nat \<Rightarrow> real \<Rightarrow> vec3 list \<Rightarrow> mat3 list \<Rightarrow> error + mat3 list" where
  "ratio_filter j r variances axes =
     (if \<not> (0 < r \<and> r < 1) then Inl AssertionError
      else
        (let variances1 = map rev3 variances;
             torf = map (\<lambda>v. div_le (pick j v) (pick 0 v) r) variances1
         in Inr (map2 mask_block torf axes)))"

text \<open>
  \<^verbatim>\<open>calcADPAxes(atoms, **kwargs)\<close>. The argument \<open>atoms\<close> is what
  \<^verbatim>\<open>atoms.getAnisoTempFactors()\<close> returns: \<open>None\<close>, or one record per atom. The result
  array of shape (3N,3) is the list of its N blocks of three rows.
\<close>

definition calcADPAxes :: "eigh_fun \<Rightarrow> anisou list option \<Rightarrow> adp_kwargs \<Rightarrow> error + mat3 list" where
  "calcADPAxes eigh atoms kwargs =
     (case atoms of
        None \<Rightarrow> Inl ValueError
      | Some [] \<Rightarrow> Inl IndexError
      | Some (anisou0 # rest) \<Rightarrow>
          (let r0 = first_atom eigh anisou0;
               rs = r0 # axes_loop eigh (snd r0) rest;
               variances = map fst rs;
               axes = map (\<lambda>r. rev_cols (snd r)) rs
           in (case fract kwargs of
                 Some f \<Rightarrow> fract_filter f variances axes
               | None \<Rightarrow>
                   (case ratio2 kwargs of
                      Some r \<Rightarrow> ratio_filter 1 r variances axes
                    | None \<Rightarrow>
                        (case ratio kwargs of
                           Some r \<Rightarrow> ratio_filter 2 r variances axes
                         | None \<Rightarrow>
                             (case ratio3 kwargs of
                                Some r \<Rightarrow> ratio_filter 2 r variances axes
                              | None \<Rightarrow> Inr axes))))))"


section \<open>Notions of the specification\<close>

text \<open>An argument that is exactly a 3x3 array, and one that is exactly a vector of
  length 3.\<close>

fun exactly_3x3 :: "pyobj \<Rightarrow> bool" where
  "exactly_3x3 (Ndarray arr) = (shape arr = [3, 3])"
| "exactly_3x3 NotNdarray = False"

fun exactly_len3 :: "pyobj \<Rightarrow> bool" where
  "exactly_len3 (Ndarray arr) = (shape arr = [3])"
| "exactly_len3 NotNdarray = False"


text \<open>Vectors and matrices given entry by entry.\<close>

definition vec_of_entries :: "(nat \<Rightarrow> real) \<Rightarrow> vec3" where
  "vec_of_entries g = (g 0, g 1, g 2)"

definition mat_of_entries :: "(nat \<Rightarrow> nat \<Rightarrow> real) \<Rightarrow> mat3" where
  "mat_of_entries g = ((g 0 0, g 0 1, g 0 2), (g 1 0, g 1 1, g 1 2), (g 2 0, g 2 1, g 2 2))"

text \<open>The weighted centroid: the sum of the weighted points divided by the sum of the
  weights.\<close>

definition weighted_centroid :: "vec3 list \<Rightarrow> real list \<Rightarrow> vec3" where
  "weighted_centroid xs w =
     vec_of_entries (\<lambda>j. (\<Sum>i<length xs. w ! i * pick j (xs ! i)) / (\<Sum>i<length xs. w ! i))"

text \<open>
  The weighted cross-covariance as the specification states it: the centred target and
  the centred mobile set, each row multiplied by its weight, one transposed and multiplied
  with the other, divided by the square of the sum of the weights.
\<close>

definition claimed_weighted_H :: "vec3 list \<Rightarrow> vec3 list \<Rightarrow> real list \<Rightarrow> mat3" where
  "claimed_weighted_H mob tar w =
     (let mc = weighted_centroid mob w; tc = weighted_centroid tar w
      in mat_of_entries (\<lambda>j k.
           (\<Sum>i<length mob.
               (w ! i * pick j (vsub (tar ! i) tc)) * (w ! i * pick k (vsub (mob ! i) mc)))
             / ((\<Sum>i<length mob. w ! i) * (\<Sum>i<length mob. w ! i))))"

text \<open>The same product divided by the sum of the squared weights.\<close>

definition amended_weighted_H :: "vec3 list \<Rightarrow> vec3 list \<Rightarrow> real list \<Rightarrow> mat3" where
  "amended_weighted_H mob tar w =
     (let mc = weighted_centroid mob w; tc = weighted_centroid tar w
      in mat_of_entries (\<lambda>j k.
           (\<Sum>i<length mob.
               (w ! i * pick j (vsub (tar ! i) tc)) * (w ! i * pick k (vsub (mob ! i) mc)))
             / (\<Sum>i<length mob. w ! i * w ! i)))"


text \<open>The squared distance of two points, and the root-mean-square deviation of a frame
  from the reference: unweighted with the number of atoms as divisor, weighted with the
  sum of the weights as divisor.\<close>

definition sq_distance :: "vec3 \<Rightarrow> vec3 \<Rightarrow> real" where
  "sq_distance a b = sumsq (vsub a b)"

definition rmsd_unweighted :: "vec3 list \<Rightarrow> vec3 list \<Rightarrow> real" where
  "rmsd_unweighted ref t =
     sqrt ((\<Sum>i<length ref. sq_distance (ref ! i) (t ! i)) / real (length ref))"

definition rmsd_weighted :: "vec3 list \<Rightarrow> vec3 list \<Rightarrow> real list \<Rightarrow> real" where
  "rmsd_weighted ref t w =
     sqrt ((\<Sum>i<length ref. w ! i * sq_distance (ref ! i) (t ! i)) / (\<Sum>i<length ref. w ! i))"

text \<open>Weights as the data model has them: non-negative, with a positive sum, one per
  atom.\<close>

definition valid_weights :: "nat \<Rightarrow> real list \<Rightarrow> bool" where
  "valid_weights n w = (length w = n \<and> list_all (\<lambda>x. 0 \<le> x) w \<and> 0 < sum_list w)"


text \<open>The unweighted centroid (the mean) and the cross-covariance of the two centred
  sets, entry by entry.\<close>

definition centroid :: "vec3 list \<Rightarrow> vec3" where
  "centroid xs = vec_of_entries (\<lambda>j. (\<Sum>i<length xs. pick j (xs ! i)) / real (length xs))"

definition covariance_H :: "vec3 list \<Rightarrow> vec3 list \<Rightarrow> mat3" where
  "covariance_H mob tar =
     mat_of_entries (\<lambda>j k.
       \<Sum>i<length mob.
          pick j (vsub (tar ! i) (centroid tar)) * pick k (vsub (mob ! i) (centroid mob)))"

text \<open>The rotation of the specification: V times diag(1,1,d) times the transpose of U,
  where V is the transpose of the third factor \<open>Vh\<close> that the decomposition returns.\<close>

definition diag_correction :: "real \<Rightarrow> mat3" where
  "diag_correction d = ((1, 0, 0), (0, 1, 0), (0, 0, d))"

definition kabsch_rotation :: "mat3 \<Rightarrow> mat3 \<Rightarrow> real \<Rightarrow> mat3" where
  "kabsch_rotation U Vh d = mmul (mmul (mT Vh) (diag_correction d)) (mT U)"



text \<open>Section 4.2 followed by the application of its result to the mobile frame itself,
  and the same for every frame of a stack; the first exception ends the run.\<close>

definition solve_and_apply ::
  "svd_fun \<Rightarrow> vec3 list \<Rightarrow> vec3 list \<Rightarrow> real list option \<Rightarrow> error + vec3 list" where
  "solve_and_apply svd mob tar weights =
     (case p_calcTransformation svd mob tar weights of
        Inl e \<Rightarrow> Inl e
      | Inr T \<Rightarrow> p_applyTransformation T mob)"

fun collect :: "(error + 'a) list \<Rightarrow> error + 'a list" where
  "collect [] = Inr []"
| "collect (Inl e # rs) = Inl e"
| "collect (Inr x # rs) = (case collect rs of Inl e \<Rightarrow> Inl e | Inr xs \<Rightarrow> Inr (x # xs))"

definition superpose_by_solver ::
  "svd_fun \<Rightarrow> vec3 list list \<Rightarrow> vec3 list \<Rightarrow> real list option \<Rightarrow> error + vec3 list list" where
  "superpose_by_solver svd mobs tar weights =
     collect (map (\<lambda>mob. solve_and_apply svd mob tar weights) mobs)"


text \<open>
  The eigenvalues of one tensor record after clamping, in the ascending order of the
  decomposition: smallest, middle, largest. A ratio filter compares the second-largest or
  the smallest of them with the largest; the quotient is undefined when the largest is
  zero. \<open>requested_ratio\<close> reads the three ratio keywords the way the function does.
\<close>

definition clamped_eigenvalues :: "eigh_fun \<Rightarrow> anisou \<Rightarrow> vec3" where
  "clamped_eigenvalues eigh a = vmap clamp0 (fst (eigh (element_of a)))"

datatype ratio_mode = Second_largest | Smallest

fun ratio_numerator :: "ratio_mode \<Rightarrow> vec3 \<Rightarrow> real" where
  "ratio_numerator Second_largest (s, m, l) = m"
| "ratio_numerator Smallest (s, m, l) = s"

fun largest :: "vec3 \<Rightarrow> real" where
  "largest (s, m, l) = l"

definition ratio_at_most :: "ratio_mode \<Rightarrow> real \<Rightarrow> vec3 \<Rightarrow> bool" where
  "ratio_at_most mode thr v = (largest v \<noteq> 0 \<and> ratio_numerator mode v / largest v \<le> thr)"

text \<open>The fraction filter compares the share of the largest eigenvalue in the sum of the
  three with the threshold; the share is undefined when the sum is zero.\<close>

definition share_exceeds :: "real \<Rightarrow> vec3 \<Rightarrow> bool" where
  "share_exceeds f v = (vtotal v \<noteq> 0 \<and> f < largest v / vtotal v)"

definition requested_ratio :: "adp_kwargs \<Rightarrow> (ratio_mode \<times> real) option" where
  "requested_ratio kw =
     (case ratio2 kw of
        Some r \<Rightarrow> Some (Second_largest, r)
      | None \<Rightarrow>
          (case ratio kw of
             Some r \<Rightarrow> Some (Smallest, r)
           | None \<Rightarrow>
               (case ratio3 kw of
                  Some r \<Rightarrow> Some (Smallest, r)
                | None \<Rightarrow> None)))"

definition no_filter :: adp_kwargs where
  "no_filter = \<lparr>fract = None, ratio = None, ratio2 = None, ratio3 = None\<rparr>"


text \<open>The radius of gyration of the specification: the weighted centroid, and the square
  root of the weighted sum of the squared distances from it divided by the sum of the
  weights.\<close>

definition radius_of_gyration :: "vec3 list \<Rightarrow> real list \<Rightarrow> real" where
  "radius_of_gyration xs w =
     sqrt ((\<Sum>i<length xs. w ! i * sq_distance (xs ! i) (weighted_centroid xs w))
             / (\<Sum>i<length xs. w ! i))"


section \<open>Construction of a Transformation\<close>

text \<open>
  Claim C9. Constructing a Transformation raises the validation error (a \<^verbatim>\<open>TypeError\<close>)
  exactly when the rotation argument is not a 3x3 array or the translation argument is not
  a vector of length 3; for a well-shaped pair it succeeds and stores the two arguments;
  and every Transformation that the constructor returns holds a 3x3 rotation and a
  translation of length 3.
\<close>

theorem Transformation_init_validation:
  "(Transformation_init rotation translation = Inl TypeError
      \<longleftrightarrow> \<not> (exactly_3x3 rotation \<and> exactly_len3 translation)) \<and>
   (exactly_3x3 rotation \<and> exactly_len3 translation
      \<longleftrightarrow> (\<exists>r t. rotation = Ndarray r \<and> translation = Ndarray t \<and>
            Transformation_init rotation translation
              = Inr \<lparr>rotation_slot = Some r, translation_slot = Some t\<rparr>)) \<and>
   (\<forall>T. Transformation_init rotation translation = Inr T
      \<longrightarrow> (\<exists>r t. rotation_slot T = Some r \<and> shape r = [3, 3] \<and>
                 translation_slot T = Some t \<and> shape t = [3]))"
  by (cases rotation; cases translation)
     (auto simp: Transformation_init_def setRotation_def setTranslation_def)

theorem Transformation_init_validation_witness:
  "Transformation_init (Ndarray (array_of_mat3 mident)) (Ndarray (array_of_vec3 vzero))
     \<noteq> Inl TypeError \<and>
   Transformation_init (Ndarray (array_of_vec3 vzero)) (Ndarray (array_of_vec3 vzero))
     = Inl TypeError \<and>
   Transformation_init (Ndarray (array_of_mat3 mident)) NotNdarray = Inl TypeError"
  using Transformation_init_validation
          [of "Ndarray (array_of_mat3 mident)" "Ndarray (array_of_vec3 vzero)"]
        Transformation_init_validation
          [of "Ndarray (array_of_vec3 vzero)" "Ndarray (array_of_vec3 vzero)"]
        Transformation_init_validation
          [of "Ndarray (array_of_mat3 mident)" NotNdarray]
  by (simp add: mident_def vzero_def)


section \<open>Entries of sums and products\<close>

lemma pick_vadd: "pick j (vadd x y) = pick j x + pick j y"
  by (cases x rule: prod_cases3; cases y rule: prod_cases3) simp

lemma pick_vsub: "pick j (vsub x y) = pick j x - pick j y"
  by (cases x rule: prod_cases3; cases y rule: prod_cases3) simp

lemma pick_vscale: "pick j (vscale k x) = k * pick j x"
  by (cases x rule: prod_cases3) simp

lemma pick_vdivs: "pick j (vdivs x k) = pick j x / k"
  by (cases x rule: prod_cases3) simp

lemma vzero_entries: "vzero = vec_of_entries (\<lambda>j. 0)"
  by (simp add: vzero_def vec_of_entries_def)

lemma vadd_entries: "vadd x (vec_of_entries g) = vec_of_entries (\<lambda>j. pick j x + g j)"
  by (cases x rule: prod_cases3) (simp add: vec_of_entries_def)

lemma vdivs_entries: "vdivs (vec_of_entries g) d = vec_of_entries (\<lambda>j. g j / d)"
  by (simp add: vec_of_entries_def)

lemma outer_entries: "outer a b = mat_of_entries (\<lambda>j k. pick j a * pick k b)"
  by (cases a rule: prod_cases3; cases b rule: prod_cases3) (simp add: mat_of_entries_def)

lemma madd_entries:
  "madd (mat_of_entries g) (mat_of_entries h) = mat_of_entries (\<lambda>j k. g j k + h j k)"
  by (simp add: mat_of_entries_def)

lemma mzero_entries: "mzero = mat_of_entries (\<lambda>j k. 0)"
  by (simp add: mat_of_entries_def mzero_def vzero_def)

lemma mdivs_entries: "mdivs (mat_of_entries g) d = mat_of_entries (\<lambda>j k. g j k / d)"
  by (simp add: mat_of_entries_def)

lemma vsum_entries: "vsum xs = vec_of_entries (\<lambda>j. \<Sum>i<length xs. pick j (xs ! i))"
  by (induction xs)
     (simp_all add: vzero_entries vadd_entries sum.lessThan_Suc_shift del: sum.lessThan_Suc)

lemma dot_T_entries:
  "dot_T A B = mat_of_entries
     (\<lambda>j k. \<Sum>i<min (length A) (length B). pick j (A ! i) * pick k (B ! i))"
  by (induction A B rule: dot_T.induct)
     (simp_all add: outer_entries madd_entries mzero_entries sum.lessThan_Suc_shift
        del: sum.lessThan_Suc)

lemma sum_list_lessThan: "sum_list (xs :: real list) = (\<Sum>i<length xs. xs ! i)"
  by (simp add: sum_list_sum_nth atLeast0LessThan)

lemma length_mul_col: "length (mul_col xs w) = min (length xs) (length w)"
  by (simp add: mul_col_def)

lemma nth_mul_col:
  "i < length xs \<Longrightarrow> i < length w \<Longrightarrow> mul_col xs w ! i = vscale (w ! i) (xs ! i)"
  by (simp add: mul_col_def)

lemma length_sub_rows: "length (sub_rows xs c) = length xs"
  by (simp add: sub_rows_def)

lemma nth_sub_rows: "i < length xs \<Longrightarrow> sub_rows xs c ! i = vsub (xs ! i) c"
  by (simp add: sub_rows_def)


section \<open>The weighted covariance matrix\<close>

lemma weighted_sum_entries:
  "length w = length xs \<Longrightarrow>
   vsum (mul_col xs w) = vec_of_entries (\<lambda>j. \<Sum>i<length xs. w ! i * pick j (xs ! i))"
  by (simp add: vsum_entries length_mul_col nth_mul_col pick_vscale)

lemma weighted_centroid_code:
  "length w = length xs \<Longrightarrow>
   vdivs (vsum (mul_col xs w)) (sum_list w) = weighted_centroid xs w"
  by (simp add: weighted_sum_entries vdivs_entries weighted_centroid_def sum_list_lessThan)

lemma weights_dot_sum: "sum_list (map2 (*) w w) = (\<Sum>i<length w. w ! i * (w ! i :: real))"
  by (simp add: sum_list_lessThan)

lemma weighted_dot_T_entries:
  "length B = length A \<Longrightarrow> length w = length A \<Longrightarrow>
   dot_T (mul_col (sub_rows A a) w) (mul_col (sub_rows B b) w) =
     mat_of_entries (\<lambda>j k.
       \<Sum>i<length A. (w ! i * pick j (vsub (A ! i) a)) * (w ! i * pick k (vsub (B ! i) b)))"
  by (simp add: dot_T_entries length_mul_col length_sub_rows nth_mul_col nth_sub_rows pick_vscale)

text \<open>
  Claim C1, as amended. For mobile and target arrays of shape (N,3) and weights of shape
  (N,1) with a positive sum, \<^verbatim>\<open>_calcTransformation\<close> centres both sets at their weighted
  centroids and forms the matrix H as the transposed weighted centred target times the
  weighted centred mobile set, divided by the sum of the squared weights (the product of
  the weight vector with itself), not by the square of their sum.
\<close>

theorem weighted_covariance_normalisation:
  assumes "length tar = length mob" and "length w = length mob" and "0 < sum_list w"
  shows "centered_matrix mob tar (Some w) =
           (weighted_centroid mob w, weighted_centroid tar w, amended_weighted_H mob tar w)"
  using assms
  by (simp add: centered_matrix_def Let_def weighted_centroid_code weights_dot_sum
        weighted_dot_T_entries mdivs_entries amended_weighted_H_def)

theorem weighted_covariance_normalisation_witness:
  "length [(0, 1, 0), (0, -1, 0), (-2, 0, 0 :: real)] = length [(1, 0, 0), (-1, 0, 0), (0, 2, 0 :: real)] \<and>
   length [1, 2, 3 :: real] = length [(1, 0, 0), (-1, 0, 0), (0, 2, 0 :: real)] \<and>
   0 < sum_list [1, 2, 3 :: real] \<and>
   centered_matrix [(1, 0, 0), (-1, 0, 0), (0, 2, 0)] [(0, 1, 0), (0, -1, 0), (-2, 0, 0)]
       (Some [1, 2, 3]) =
     (weighted_centroid [(1, 0, 0), (-1, 0, 0), (0, 2, 0)] [1, 2, 3],
      weighted_centroid [(0, 1, 0), (0, -1, 0), (-2, 0, 0)] [1, 2, 3],
      amended_weighted_H [(1, 0, 0), (-1, 0, 0), (0, 2, 0)] [(0, 1, 0), (0, -1, 0), (-2, 0, 0)]
        [1, 2, 3])"
  using weighted_covariance_normalisation
          [of "[(0, 1, 0), (0, -1, 0), (-2, 0, 0)]" "[(1, 0, 0), (-1, 0, 0), (0, 2, 0)]"
              "[1, 2, 3]"]
  by simp

text \<open>With two points on the x axis and unit weights the code divides the product by 2,
  the sum of the squared weights; the square of the sum of the weights is 4.\<close>

theorem weighted_covariance_counterexample:
  "0 < sum_list [1, 1 :: real] \<and>
   snd (snd (centered_matrix [(1, 0, 0), (-1, 0, 0)] [(1, 0, 0), (-1, 0, 0)] (Some [1, 1])))
     = ((1, 0, 0), (0, 0, 0), (0, 0, 0)) \<and>
   claimed_weighted_H [(1, 0, 0), (-1, 0, 0)] [(1, 0, 0), (-1, 0, 0)] [1, 1]
     = ((1 / 2, 0, 0), (0, 0, 0), (0, 0, 0))"
  by (simp add: centered_matrix_def Let_def mul_col_def sub_rows_def vzero_def mzero_def
        claimed_weighted_H_def weighted_centroid_def vec_of_entries_def mat_of_entries_def)


section \<open>RMSD of a frame and of a stack\<close>

lemma vtotal_vmul_self: "vtotal (vmul x x) = sumsq x"
  by (cases x rule: prod_cases3) simp

lemma vtotal_vscale: "vtotal (vscale k x) = k * vtotal x"
  by (cases x rule: prod_cases3) (simp add: algebra_simps)

lemma length_sqdev: "length (sqdev ref t) = min (length ref) (length t)"
  by (simp add: sqdev_def squares_def)

lemma nth_sqdev:
  "i < length ref \<Longrightarrow> i < length t \<Longrightarrow>
   sqdev ref t ! i = vmul (vsub (ref ! i) (t ! i)) (vsub (ref ! i) (t ! i))"
  by (simp add: sqdev_def squares_def)

lemma total_sqdev:
  "length t = length ref \<Longrightarrow>
   arr_sum (sqdev ref t) = (\<Sum>i<length ref. sq_distance (ref ! i) (t ! i))"
  by (simp add: arr_sum_def sum_list_lessThan length_sqdev nth_sqdev vtotal_vmul_self
        sq_distance_def)

lemma total_weighted_sqdev:
  "length t = length ref \<Longrightarrow> length w = length ref \<Longrightarrow>
   arr_sum (mul_col (sqdev ref t) w) = (\<Sum>i<length ref. w ! i * sq_distance (ref ! i) (t ! i))"
  by (simp add: arr_sum_def sum_list_lessThan length_mul_col nth_mul_col length_sqdev nth_sqdev
        vtotal_vscale vtotal_vmul_self sq_distance_def)

lemma rmsd_frame_unweighted:
  "length t = length ref \<Longrightarrow> ref \<noteq> [] \<Longrightarrow>
   sqrt (arr_sum (sqdev ref t) / real (length ref)) = rmsd_unweighted ref t"
  by (simp add: total_sqdev rmsd_unweighted_def)

lemma rmsd_frame_weighted:
  "length t = length ref \<Longrightarrow> length w = length ref \<Longrightarrow>
   sqrt (arr_sum (mul_col (sqdev ref t) w) / sum_list w) = rmsd_weighted ref t w"
  by (simp add: total_weighted_sqdev rmsd_weighted_def sum_list_lessThan)

lemma per_frame_entries:
  "length ws = length ts \<Longrightarrow>
   map2 (\<lambda>x d. sqrt (x / d)) (map2 (\<lambda>t w. arr_sum (mul_col (sqdev ref t) w)) ts ws)
       (map sum_list ws)
     = map2 (\<lambda>t w. sqrt (arr_sum (mul_col (sqdev ref t) w) / sum_list w)) ts ws"
  by (induction ws ts rule: list_induct2) simp_all

lemma per_frame_weighted:
  "length ws = length ts \<Longrightarrow> \<forall>t\<in>set ts. length t = length ref \<Longrightarrow>
   \<forall>w\<in>set ws. length w = length ref \<Longrightarrow>
   map2 (\<lambda>t w. sqrt (arr_sum (mul_col (sqdev ref t) w) / sum_list w)) ts ws
     = map2 (rmsd_weighted ref) ts ws"
  by (induction ws ts rule: list_induct2) (simp_all add: rmsd_frame_weighted)

text \<open>
  Claim C6. For a reference of N > 0 atoms, \<^verbatim>\<open>_calcRMSD\<close> returns for a single
  unweighted frame the scalar square root of the sum of the squared distances divided by
  N; for a stack of M frames it returns an array of M entries, one per frame; and with a
  stack of per-frame weights the divisor inside entry i is the sum of the weights of frame
  i alone.
\<close>

theorem rmsd_formulas:
  assumes "ref \<noteq> []" and "length t = length ref" and "\<forall>t\<in>set ts. length t = length ref"
    and "valid_weights (length ref) w"
    and "length ws = length ts" and "\<forall>w\<in>set ws. valid_weights (length ref) w"
  shows "p_calcRMSD ref (Frame t) None = Inr (Scalar (rmsd_unweighted ref t)) \<and>
         p_calcRMSD ref (Stack n ts) None = Inr (Array (map (rmsd_unweighted ref) ts)) \<and>
         p_calcRMSD ref (Stack n ts) (Some (W2 w))
           = Inr (Array (map (\<lambda>t. rmsd_weighted ref t w) ts)) \<and>
         p_calcRMSD ref (Stack n ts) (Some (W3 ws))
           = Inr (Array (map2 (rmsd_weighted ref) ts ws)) \<and>
         length (map2 (rmsd_weighted ref) ts ws) = length ts"
proof -
  have lw: "length w = length ref" and lws: "\<forall>w\<in>set ws. length w = length ref"
    using assms(4,6) by (simp_all add: valid_weights_def)
  have a: "p_calcRMSD ref (Frame t) None = Inr (Scalar (rmsd_unweighted ref t))"
    using assms(1,2) by (simp add: p_calcRMSD_def rmsd_frame_unweighted)
  have b: "p_calcRMSD ref (Stack n ts) None = Inr (Array (map (rmsd_unweighted ref) ts))"
    using assms(1,3) by (simp add: p_calcRMSD_def rmsd_frame_unweighted)
  have c: "p_calcRMSD ref (Stack n ts) (Some (W2 w))
             = Inr (Array (map (\<lambda>t. rmsd_weighted ref t w) ts))"
    using assms(3) lw rmsd_frame_weighted [of _ ref w]
    by (simp add: p_calcRMSD_def divide_inverse)
  have d: "p_calcRMSD ref (Stack n ts) (Some (W3 ws))
             = Inr (Array (map2 (rmsd_weighted ref) ts ws))"
    using assms(3,5) lws by (simp add: p_calcRMSD_def per_frame_entries per_frame_weighted)
  from a b c d assms(5) show ?thesis by simp
qed

theorem rmsd_formulas_witness:
  "p_calcRMSD [(0, 0, 0), (2, 0, 0)] (Frame [(0, 0, 0), (0, 0, 0)]) None
     = Inr (Scalar (sqrt 2)) \<and>
   p_calcRMSD [(0, 0, 0), (2, 0, 0)]
       (Stack 2 [[(0, 0, 0), (0, 0, 0)], [(0, 0, 0), (2, 0, 0)]]) None
     = Inr (Array [sqrt 2, 0]) \<and>
   p_calcRMSD [(0, 0, 0), (2, 0, 0)]
       (Stack 2 [[(0, 0, 0), (0, 0, 0)], [(0, 0, 0), (2, 0, 0)]]) (Some (W2 [1, 3]))
     = Inr (Array [sqrt 3, 0]) \<and>
   p_calcRMSD [(0, 0, 0), (2, 0, 0)]
       (Stack 2 [[(0, 0, 0), (0, 0, 0)], [(0, 0, 0), (2, 0, 0)]]) (Some (W3 [[1, 3], [1, 1]]))
     = Inr (Array [sqrt 3, 0])"
  using rmsd_formulas
          [of "[(0, 0, 0), (2, 0, 0)]" "[(0, 0, 0), (0, 0, 0)]"
              "[[(0, 0, 0), (0, 0, 0)], [(0, 0, 0), (2, 0, 0)]]" "[1, 3]" "[[1, 3], [1, 1]]" 2]
  by (simp add: valid_weights_def rmsd_unweighted_def rmsd_weighted_def sq_distance_def)


section \<open>The unweighted solver\<close>

lemma mat3_cases:
  obtains a b c d e f g h i where "M = ((a, b, c), (d, e, f), (g, h, i :: real))"
proof -
  obtain r0 r1 r2 where M: "M = (r0, r1, r2)" by (cases M rule: prod_cases3)
  obtain a b c where r0: "r0 = (a, b, c)" by (cases r0 rule: prod_cases3)
  obtain d e f where r1: "r1 = (d, e, f)" by (cases r1 rule: prod_cases3)
  obtain g h i where r2: "r2 = (g, h, i)" by (cases r2 rule: prod_cases3)
  from that M r0 r1 r2 show thesis by blast
qed

lemma mmul_assoc: "mmul (mmul A B) C = mmul A (mmul B C)"
proof -
  obtain a1 a2 a3 a4 a5 a6 a7 a8 a9 where A: "A = ((a1, a2, a3), (a4, a5, a6), (a7, a8, a9))"
    by (rule mat3_cases)
  obtain b1 b2 b3 b4 b5 b6 b7 b8 b9 where B: "B = ((b1, b2, b3), (b4, b5, b6), (b7, b8, b9))"
    by (rule mat3_cases)
  obtain c1 c2 c3 c4 c5 c6 c7 c8 c9 where C: "C = ((c1, c2, c3), (c4, c5, c6), (c7, c8, c9))"
    by (rule mat3_cases)
  show ?thesis
    by (simp add: A B C algebra_simps)
qed

lemma mean0_centroid: "mean0 xs = centroid xs"
  by (simp add: mean0_def centroid_def vsum_entries vdivs_entries)

lemma dot_T_covariance:
  "length tar = length mob \<Longrightarrow>
   dot_T (sub_rows tar (centroid tar)) (sub_rows mob (centroid mob)) = covariance_H mob tar"
  by (simp add: dot_T_entries length_sub_rows nth_sub_rows covariance_H_def)

lemma shape_array_of_mat3: "shape (array_of_mat3 M) = [3, 3]"
  by (rule mat3_cases [of M]) simp

lemma shape_array_of_vec3: "shape (array_of_vec3 v) = [3]"
  by (cases v rule: prod_cases3) simp

lemma Transformation_init_arrays:
  "Transformation_init (Ndarray (array_of_mat3 R)) (Ndarray (array_of_vec3 v)) =
     Inr \<lparr>rotation_slot = Some (array_of_mat3 R), translation_slot = Some (array_of_vec3 v)\<rparr>"
  by (simp add: Transformation_init_def setRotation_def setTranslation_def
        shape_array_of_mat3 shape_array_of_vec3)

lemma mat3_of_array_of_mat3: "mat3_of_array (array_of_mat3 M) = Some M"
  by (rule mat3_cases [of M]) (simp add: mat3_of_array_def)

lemma vec3_of_array_of_vec3: "vec3_of_array (array_of_vec3 v) = Some v"
  by (cases v rule: prod_cases3) (simp add: vec3_of_array_def)

lemma rotation_of_kabsch:
  "svd M = (U, S, Vh) \<Longrightarrow> rotation_of svd M = kabsch_rotation U Vh (sgn (det3 M))"
  by (simp add: rotation_of_def kabsch_rotation_def diag_correction_def mmul_assoc)

text \<open>
  Claim C5. For unweighted mobile and target arrays of N > 0 rows, \<^verbatim>\<open>_calcTransformation\<close>
  centres both sets at their means, forms H as the transposed centred target times the
  centred mobile set, decomposes H into \<open>(U, S, Vh)\<close>, and returns the Transformation whose
  rotation is R = V diag(1,1,d) U' with V the transpose of \<open>Vh\<close>, U' the transpose of U and d the sign of the
  determinant of H, and whose translation is the target centroid minus the mobile centroid
  times R.
\<close>

theorem unweighted_solver_formula:
  assumes "mob \<noteq> []" and "length tar = length mob"
    and "svd (covariance_H mob tar) = (U, S, Vh)"
  shows "p_calcTransformation svd mob tar None =
           Inr \<lparr>rotation_slot = Some (array_of_mat3
                    (kabsch_rotation U Vh (sgn (det3 (covariance_H mob tar))))),
                translation_slot = Some (array_of_vec3
                    (vsub (centroid tar)
                       (vecmat (centroid mob)
                          (kabsch_rotation U Vh (sgn (det3 (covariance_H mob tar)))))))\<rparr>"
  using assms
  by (simp add: p_calcTransformation_def centered_matrix_def Let_def dot_T_covariance
        rotation_of_kabsch Transformation_init_arrays mean0_centroid)

text \<open>Six points on the coordinate axes, and the same points turned by 90 degrees about
  the z axis and shifted by (2,3,0): H is the product of the factors ((0,-1,0),(1,0,0),(0,0,1)),
  diag(18,8,2) and the identity, and the solver returns the turn and the shift.\<close>

theorem unweighted_solver_formula_witness:
  "mmul (scale_cols (18, 8, 2) ((0, -1, 0), (1, 0, 0), (0, 0, 1))) mident
     = covariance_H [(3, 0, 0), (-3, 0, 0), (0, 2, 0), (0, -2, 0), (0, 0, 1), (0, 0, -1)]
         [(2, 6, 0), (2, 0, 0), (0, 3, 0), (4, 3, 0), (2, 3, 1), (2, 3, -1)] \<and>
   p_calcTransformation (\<lambda>M. (((0, -1, 0), (1, 0, 0), (0, 0, 1)), (18, 8, 2), mident))
       [(3, 0, 0), (-3, 0, 0), (0, 2, 0), (0, -2, 0), (0, 0, 1), (0, 0, -1)]
       [(2, 6, 0), (2, 0, 0), (0, 3, 0), (4, 3, 0), (2, 3, 1), (2, 3, -1)] None
     = Inr \<lparr>rotation_slot = Some (array_of_mat3 ((0, 1, 0), (-1, 0, 0), (0, 0, 1))),
            translation_slot = Some (array_of_vec3 (2, 3, 0))\<rparr>"
proof -
  let ?mob = "[(3, 0, 0), (-3, 0, 0), (0, 2, 0), (0, -2, 0), (0, 0, 1), (0, 0, -1)] :: vec3 list"
  let ?tar = "[(2, 6, 0), (2, 0, 0), (0, 3, 0), (4, 3, 0), (2, 3, 1), (2, 3, -1)] :: vec3 list"
  let ?U = "((0, -1, 0), (1, 0, 0), (0, 0, 1)) :: mat3"
  let ?svd = "\<lambda>M :: mat3. (?U, (18, 8, 2) :: vec3, mident)"
  have cm: "centroid ?mob = (0, 0, 0)" and ct: "centroid ?tar = (2, 3, 0)"
    by (simp_all add: centroid_def vec_of_entries_def)
  have H: "covariance_H ?mob ?tar = ((0, -8, 0), (18, 0, 0), (0, 0, 2))"
    unfolding covariance_H_def cm ct by (simp add: mat_of_entries_def)
  have s: "?svd (covariance_H ?mob ?tar) = (?U, (18, 8, 2), mident)"
    by simp
  have R: "kabsch_rotation ?U mident (sgn (det3 (covariance_H ?mob ?tar)))
             = ((0, 1, 0), (-1, 0, 0), (0, 0, 1))"
    unfolding H by (simp add: kabsch_rotation_def diag_correction_def mident_def)
  have t: "vsub (centroid ?tar) (vecmat (centroid ?mob) ((0, 1, 0), (-1, 0, 0), (0, 0, 1)))
             = (2, 3, 0)"
    unfolding cm ct by simp
  have usv: "mmul (scale_cols (18, 8, 2) ?U) mident = covariance_H ?mob ?tar"
    unfolding H by (simp add: mident_def)
  show ?thesis
    using unweighted_solver_formula [of ?mob ?tar ?svd ?U "(18, 8, 2)" mident, OF _ _ s] usv
    unfolding R t by simp
qed


section \<open>Uniform weights\<close>
























section \<open>Batch superposition\<close>

lemma vecmat_vsub: "vecmat (vsub x y) M = vsub (vecmat x M) (vecmat y M)"
proof -
  obtain a1 a2 a3 a4 a5 a6 a7 a8 a9 where M: "M = ((a1, a2, a3), (a4, a5, a6), (a7, a8, a9))"
    by (rule mat3_cases)
  show ?thesis
    by (cases x rule: prod_cases3; cases y rule: prod_cases3) (simp add: M algebra_simps)
qed

lemma vadd_vsub_shift: "vadd (vsub a b) c = vadd a (vsub c b)"
  by (cases a rule: prod_cases3; cases b rule: prod_cases3; cases c rule: prod_cases3) simp

text \<open>Without weights the two agree on every frame: centring the frame, rotating it and
  adding the target centroid is the rotation of the frame plus the translation of the
  solver.\<close>

lemma solve_and_apply_unweighted:
  "solve_and_apply svd mob tar None =
     Inr (superpose_frame svd (mean0 tar) (sub_rows tar (mean0 tar)) mob)"
  by (simp add: solve_and_apply_def p_calcTransformation_def centered_matrix_def Let_def
        Transformation_init_arrays p_applyTransformation_def mat3_of_array_of_mat3
        vec3_of_array_of_vec3 superpose_frame_def add_rows_def dot_rows_def sub_rows_def
        vecmat_vsub vadd_vsub_shift)

lemma collect_map_Inr: "collect (map (\<lambda>x. Inr (g x)) xs) = Inr (map g xs)"
  by (induction xs) simp_all

lemma superpose_unweighted_refines:
  "p_superpose svd mobs tar weights None = superpose_by_solver svd mobs tar None"
  by (simp add: p_superpose_def Let_def superpose_by_solver_def solve_and_apply_unweighted
        collect_map_Inr)

lemma solve_and_apply_result:
  "solve_and_apply svd mob tar weights =
     (case centered_matrix mob tar weights of
        (mob_com, tar_com, matrix) \<Rightarrow>
          Inr (add_rows (dot_rows mob (rotation_of svd matrix))
                 (vsub tar_com (vecmat mob_com (rotation_of svd matrix)))))"
  by (simp add: solve_and_apply_def p_calcTransformation_def Let_def split_beta
        Transformation_init_arrays p_applyTransformation_def mat3_of_array_of_mat3
        vec3_of_array_of_vec3)

lemma shifted_frames_differ:
  "add_rows (dot_rows [(1, 0, 0), (-1, 0, 0), (0, 1, 0), (0, -1, 0)] R1) (0, 1 / 4, 0) \<noteq>
   add_rows (dot_rows [(1, 0, 0), (-1, 0, 0), (0, 1, 0), (0, -1, 0)] R2)
     (vsub (0, 3 / 8, 0) (vecmat (0, 0, 0) R2))"
proof -
  obtain a1 a2 a3 a4 a5 a6 a7 a8 a9 where R1: "R1 = ((a1, a2, a3), (a4, a5, a6), (a7, a8, a9))"
    by (rule mat3_cases)
  obtain b1 b2 b3 b4 b5 b6 b7 b8 b9 where R2: "R2 = ((b1, b2, b3), (b4, b5, b6), (b7, b8, b9))"
    by (rule mat3_cases)
  show ?thesis
    by (auto simp add: R1 R2 add_rows_def dot_rows_def)
qed

text \<open>
  Claim C4 at a concrete input. For the one-frame stack of the four points (1,0,0),
  (-1,0,0), (0,1,0), (0,-1,0), the target (1,0,0), (-1,0,0), (0,2,0), (0,-1,0) and the
  weights 1, 1, 3, 3, the frame that \<^verbatim>\<open>_superpose\<close> writes differs, for every
  decomposition routine, from the frame obtained by solving with these weights and applying
  the result: \<^verbatim>\<open>_superpose\<close> moves the centroid of the frame to the unweighted target
  centroid (0, 1/4, 0), the weighted solver to the weighted one (0, 3/8, 0). What
  \<^verbatim>\<open>_superpose\<close> writes is the result of solving without weights.
\<close>

theorem superpose_ignores_weights:
  "p_superpose svd [[(1, 0, 0), (-1, 0, 0), (0, 1, 0), (0, -1, 0)]]
       [(1, 0, 0), (-1, 0, 0), (0, 2, 0), (0, -1, 0)] (Some [1, 1, 3, 3]) None
     \<noteq> superpose_by_solver svd [[(1, 0, 0), (-1, 0, 0), (0, 1, 0), (0, -1, 0)]]
         [(1, 0, 0), (-1, 0, 0), (0, 2, 0), (0, -1, 0)] (Some [1, 1, 3, 3]) \<and>
   p_superpose svd [[(1, 0, 0), (-1, 0, 0), (0, 1, 0), (0, -1, 0)]]
       [(1, 0, 0), (-1, 0, 0), (0, 2, 0), (0, -1, 0)] (Some [1, 1, 3, 3]) None
     = superpose_by_solver svd [[(1, 0, 0), (-1, 0, 0), (0, 1, 0), (0, -1, 0)]]
         [(1, 0, 0), (-1, 0, 0), (0, 2, 0), (0, -1, 0)] None"
proof -
  let ?mob = "[(1, 0, 0), (-1, 0, 0), (0, 1, 0), (0, -1, 0)] :: vec3 list"
  let ?tar = "[(1, 0, 0), (-1, 0, 0), (0, 2, 0), (0, -1, 0)] :: vec3 list"
  let ?w = "[1, 1, 3, 3] :: real list"
  have mm: "mean0 ?mob = (0, 0, 0)" and mt: "mean0 ?tar = (0, 1 / 4, 0)"
    by (simp_all add: mean0_def vzero_def)
  have sub: "sub_rows ?mob (0, 0, 0) = ?mob"
    by (simp add: sub_rows_def)
  obtain M where cm: "centered_matrix ?mob ?tar (Some ?w) = ((0, 0, 0), (0, 3 / 8, 0), M)"
    by (simp add: centered_matrix_def Let_def mul_col_def vzero_def)
  have "superpose_frame svd (mean0 ?tar) (sub_rows ?tar (mean0 ?tar)) ?mob
          \<noteq> add_rows (dot_rows ?mob (rotation_of svd M))
                (vsub (0, 3 / 8, 0) (vecmat (0, 0, 0) (rotation_of svd M)))"
    unfolding superpose_frame_def Let_def mm mt sub by (rule shifted_frames_differ)
  then have "p_superpose svd [?mob] ?tar (Some ?w) None
               \<noteq> superpose_by_solver svd [?mob] ?tar (Some ?w)"
    by (simp add: p_superpose_def Let_def superpose_by_solver_def solve_and_apply_result cm)
  then show ?thesis
    by (simp add: superpose_unweighted_refines)
qed


section \<open>The decompositions used at concrete inputs\<close>

lemma sqrt_9: "sqrt 9 = 3"
  using real_sqrt_abs [of 3] by simp

lemma sqrt_16: "sqrt 16 = 4"
  using real_sqrt_abs [of 4] by simp

lemma svd_diagonal_decomposes:
  "svd_diagonal ((a, 0, 0), (0, b, 0), (0, 0, c)) = (mident, (a, b, c), mident) \<and>
   mmul mident (mmul (scale_cols (a, b, c) mident) mident) = ((a, 0, 0), (0, b, 0), (0, 0, c)) \<and>
   mmul mident (mT mident) = mident"
  by (simp add: mident_def)

lemma eigh_diagonal_decomposes:
  "eigh_diagonal (element_of (a, b, c, 0, 0, 0)) = ((a, b, c), mident) \<and>
   mmul (element_of (a, b, c, 0, 0, 0)) mident = scale_cols (a, b, c) mident \<and>
   mmul (mT mident) mident = mident"
  by (simp add: mident_def)


section \<open>The ratio filter\<close>

lemma fst_first_atom: "fst (first_atom eigh a) = clamped_eigenvalues eigh a"
  by (simp add: first_atom_def clamped_eigenvalues_def Let_def split_beta)

lemma fst_next_atom: "fst (next_atom eigh prev a) = clamped_eigenvalues eigh a"
  by (simp add: next_atom_def clamped_eigenvalues_def Let_def split_beta)

lemma variances_axes_loop:
  "map fst (axes_loop eigh prev as) = map (clamped_eigenvalues eigh) as"
  by (induction as arbitrary: prev) (simp_all add: Let_def fst_next_atom)

lemma length_axes_loop: "length (axes_loop eigh prev as) = length as"
  by (induction as arbitrary: prev) (simp_all add: Let_def)

lemma clamped_nonneg:
  "clamped_eigenvalues eigh a = (s, m, l) \<Longrightarrow> 0 \<le> s \<and> 0 \<le> m \<and> 0 \<le> l"
  by (cases "fst (eigh (element_of a))" rule: prod_cases3)
     (auto simp add: clamped_eigenvalues_def clamp0_def split: if_splits)

lemma mask_block_True: "mask_block True M = M"
  by (rule mat3_cases [of M]) (simp add: mask_block_def)

lemma mask_block_False: "mask_block False M = mzero"
  by (rule mat3_cases [of M]) (simp add: mask_block_def mzero_def vzero_def)

lemma torf_ratio:
  assumes "clamped_eigenvalues eigh a = v"
  shows "div_le (pick (case mode of Second_largest \<Rightarrow> 1 | Smallest \<Rightarrow> 2) (rev3 v))
           (pick 0 (rev3 v)) thr = ratio_at_most mode thr v"
proof -
  obtain s m l where v: "v = (s, m, l)" by (cases v rule: prod_cases3)
  with assms have "0 \<le> s \<and> 0 \<le> m \<and> 0 \<le> l" by (simp add: clamped_nonneg)
  then show ?thesis
    by (cases mode) (auto simp add: v div_le_def ratio_at_most_def)
qed

lemma ratio_filter_nth:
  assumes "0 < thr" and "thr < 1" and "length variances = length axes" and "i < length axes"
  shows "\<exists>out. ratio_filter j thr variances axes = Inr out \<and> length out = length axes \<and>
           out ! i = mask_block (div_le (pick j (rev3 (variances ! i)))
                                   (pick 0 (rev3 (variances ! i))) thr) (axes ! i)"
  using assms by (simp add: ratio_filter_def Let_def)


lemma calcADPAxes_no_filter:
  "calcADPAxes eigh (Some (a0 # rest)) no_filter =
     Inr (map (\<lambda>r. rev_cols (snd r))
            (first_atom eigh a0 # axes_loop eigh (snd (first_atom eigh a0)) rest))"
  by (simp add: calcADPAxes_def no_filter_def Let_def)

lemma calcADPAxes_ratio:
  assumes "fract kw = None" and "requested_ratio kw = Some (mode, thr)"
  shows "calcADPAxes eigh (Some (a0 # rest)) kw =
           ratio_filter (case mode of Second_largest \<Rightarrow> 1 | Smallest \<Rightarrow> 2) thr
             (map fst (first_atom eigh a0 # axes_loop eigh (snd (first_atom eigh a0)) rest))
             (map (\<lambda>r. rev_cols (snd r))
                (first_atom eigh a0 # axes_loop eigh (snd (first_atom eigh a0)) rest))"
  using assms
  by (auto simp add: calcADPAxes_def requested_ratio_def Let_def split: option.splits)

text \<open>
  Claim C2, as amended. With a ratio filter given and no fraction filter, the block of
  every point whose eigenvalue ratio (smallest to largest for \<^verbatim>\<open>ratio\<close> and
  \<^verbatim>\<open>ratio3\<close>, second-largest to largest for \<^verbatim>\<open>ratio2\<close>) is at or below the threshold
  is returned unchanged, and the block of every point whose ratio is above the threshold,
  or undefined because the largest eigenvalue is zero, is set to zero.
\<close>

theorem ratio_filter_keeps_low_ratios:
  assumes "fract kw = None" and "requested_ratio kw = Some (mode, thr)"
    and "0 < thr" and "thr < 1" and "i < length atoms"
  shows "\<exists>out raw.
           calcADPAxes eigh (Some atoms) kw = Inr out \<and>
           calcADPAxes eigh (Some atoms) no_filter = Inr raw \<and>
           length out = length atoms \<and> length raw = length atoms \<and>
           out ! i = (if ratio_at_most mode thr (clamped_eigenvalues eigh (atoms ! i))
                      then raw ! i else mzero)"
proof -
  from assms(5) obtain a0 rest where atoms: "atoms = a0 # rest"
    by (cases atoms) auto
  define rs where "rs = first_atom eigh a0 # axes_loop eigh (snd (first_atom eigh a0)) rest"
  define axes where "axes = map (\<lambda>r. rev_cols (snd r)) rs"
  define j :: nat where "j = (case mode of Second_largest \<Rightarrow> 1 | Smallest \<Rightarrow> 2)"
  have len: "length rs = length atoms"
    by (simp add: rs_def atoms length_axes_loop)
  have vars: "map fst rs = map (clamped_eigenvalues eigh) atoms"
    by (simp add: rs_def atoms fst_first_atom variances_axes_loop)
  have raw: "calcADPAxes eigh (Some atoms) no_filter = Inr axes"
    by (simp add: atoms calcADPAxes_no_filter axes_def rs_def)
  have filt: "calcADPAxes eigh (Some atoms) kw = ratio_filter j thr (map fst rs) axes"
    using calcADPAxes_ratio [OF assms(1,2)] by (simp add: atoms axes_def rs_def j_def)
  have i: "i < length axes" and ll: "length (map fst rs) = length axes"
    using assms(5) len by (simp_all add: axes_def)
  from ratio_filter_nth [OF assms(3,4) ll i, of j]
  obtain out where out: "ratio_filter j thr (map fst rs) axes = Inr out"
    and lo: "length out = length axes"
    and oi: "out ! i = mask_block (div_le (pick j (rev3 (map fst rs ! i)))
                                    (pick 0 (rev3 (map fst rs ! i))) thr) (axes ! i)"
    by blast
  have vi: "map fst rs ! i = clamped_eigenvalues eigh (atoms ! i)"
    using assms(5) by (simp add: vars)
  have "out ! i = (if ratio_at_most mode thr (clamped_eigenvalues eigh (atoms ! i))
                   then axes ! i else mzero)"
    unfolding oi vi j_def torf_ratio [OF refl]
    by (simp add: mask_block_True mask_block_False)
  with raw filt out lo len show ?thesis
    by (simp add: axes_def)
qed

theorem ratio_filter_keeps_low_ratios_witness:
  "calcADPAxes eigh_diagonal (Some [(1, 4, 16, 0, 0, 0), (4, 9, 16, 0, 0, 0)])
       \<lparr>fract = None, ratio = Some (1 / 8), ratio2 = None, ratio3 = None\<rparr>
     = Inr [((0, 0, 1), (0, 2, 0), (4, 0, 0)), mzero]"
proof -
  let ?atoms = "[(1, 4, 16, 0, 0, 0), (4, 9, 16, 0, 0, 0)] :: anisou list"
  let ?kw = "\<lparr>fract = None, ratio = Some (1 / 8), ratio2 = None, ratio3 = None\<rparr>"
  have raw: "calcADPAxes eigh_diagonal (Some ?atoms) no_filter
               = Inr [((0, 0, 1), (0, 2, 0), (4, 0, 0)), ((0, 0, 2), (0, 3, 0), (4, 0, 0))]"
    by (simp add: calcADPAxes_no_filter first_atom_def next_atom_def Let_def clamp0_def
          mident_def sqrt_9 sqrt_16)
  have rq: "requested_ratio ?kw = Some (Smallest, 1 / 8)"
    by (simp add: requested_ratio_def)
  have e0: "clamped_eigenvalues eigh_diagonal (?atoms ! 0) = (1, 4, 16)"
    and e1: "clamped_eigenvalues eigh_diagonal (?atoms ! 1) = (4, 9, 16)"
    by (simp_all add: clamped_eigenvalues_def clamp0_def)
  from ratio_filter_keeps_low_ratios [of ?kw Smallest "1 / 8" 0 ?atoms eigh_diagonal, OF _ rq]
  obtain out0 where o0: "calcADPAxes eigh_diagonal (Some ?atoms) ?kw = Inr out0"
    and l0: "length out0 = 2" and v0: "out0 ! 0 = ((0, 0, 1), (0, 2, 0), (4, 0, 0))"
    unfolding e0 raw by (auto simp add: ratio_at_most_def)
  from ratio_filter_keeps_low_ratios [of ?kw Smallest "1 / 8" 1 ?atoms eigh_diagonal, OF _ rq]
  obtain out1 where o1: "calcADPAxes eigh_diagonal (Some ?atoms) ?kw = Inr out1"
    and v1: "out1 ! 1 = mzero"
    unfolding e1 raw by (auto simp add: ratio_at_most_def)
  from o0 o1 have "out1 = out0" by simp
  with l0 v0 v1 have "out0 = [((0, 0, 1), (0, 2, 0), (4, 0, 0)), mzero]"
    by (cases out0; cases "tl out0") (auto simp add: nth_Cons')
  with o0 show ?thesis by simp
qed

text \<open>One atom with eigenvalues 1, 4, 16 and the threshold 1/8: the ratio of the
  smallest to the largest eigenvalue is 1/16, at or below the threshold, and the axes are
  returned, not zeroed. One atom with eigenvalues 4, 9, 16: the ratio is 1/4, above the
  threshold, and the axes are zeroed.\<close>

theorem ratio_filter_counterexample:
  "(1 :: real) / 16 \<le> 1 / 8 \<and>
   calcADPAxes eigh_diagonal (Some [(1, 4, 16, 0, 0, 0)])
       \<lparr>fract = None, ratio = Some (1 / 8), ratio2 = None, ratio3 = None\<rparr>
     = Inr [((0, 0, 1), (0, 2, 0), (4, 0, 0))] \<and>
   \<not> (4 :: real) / 16 \<le> 1 / 8 \<and>
   calcADPAxes eigh_diagonal (Some [(4, 9, 16, 0, 0, 0)])
       \<lparr>fract = None, ratio = Some (1 / 8), ratio2 = None, ratio3 = None\<rparr>
     = Inr [((0, 0, 0), (0, 0, 0), (0, 0, 0))]"
  by (simp add: calcADPAxes_def first_atom_def Let_def clamp0_def mident_def
        ratio_filter_def div_le_def mask_block_def sqrt_9 sqrt_16)


section \<open>The fraction filter\<close>

lemma torf_fract:
  assumes "clamped_eigenvalues eigh a = v"
  shows "div_gt (pick 0 (rev3 v)) (vtotal (rev3 v)) f = share_exceeds f v"
proof -
  obtain s m l where v: "v = (s, m, l)" by (cases v rule: prod_cases3)
  with assms have "0 \<le> s \<and> 0 \<le> m \<and> 0 \<le> l" by (simp add: clamped_nonneg)
  then show ?thesis
    by (auto simp add: v div_gt_def share_exceeds_def add.commute add.left_commute)
qed

lemma fract_filter_nth:
  assumes "33 / 100 < f" and "f < 1" and "length variances = length axes" and "i < length axes"
  shows "\<exists>out. fract_filter f variances axes = Inr out \<and> length out = length axes \<and>
           out ! i = mask_block (div_gt (pick 0 (rev3 (variances ! i)))
                                   (vtotal (rev3 (variances ! i))) f) (axes ! i)"
  using assms by (simp add: fract_filter_def Let_def)

lemma calcADPAxes_fract:
  "calcADPAxes eigh (Some (a0 # rest)) \<lparr>fract = Some f, ratio = r, ratio2 = r2, ratio3 = r3\<rparr> =
     fract_filter f
       (map fst (first_atom eigh a0 # axes_loop eigh (snd (first_atom eigh a0)) rest))
       (map (\<lambda>r. rev_cols (snd r))
          (first_atom eigh a0 # axes_loop eigh (snd (first_atom eigh a0)) rest))"
  by (simp add: calcADPAxes_def Let_def)

text \<open>
  Claim C10. When \<^verbatim>\<open>fract\<close> is among the keyword arguments, the result of
  \<^verbatim>\<open>calcADPAxes\<close> is the one obtained with \<^verbatim>\<open>fract\<close> alone, whatever is passed for
  \<^verbatim>\<open>ratio\<close>, \<^verbatim>\<open>ratio2\<close> and \<^verbatim>\<open>ratio3\<close>, and it is the result of the fraction filter:
  a value of \<^verbatim>\<open>fract\<close> outside the open interval from 0.33 to 1 fails the assertion; for
  a value inside, the block of every point whose largest eigenvalue has a share of the sum
  of the eigenvalues above \<^verbatim>\<open>fract\<close> is returned unchanged, and the block of every other
  point, also one whose eigenvalues are all zero, is set to zero.
\<close>

theorem fract_overrides_ratio:
  "calcADPAxes eigh atoms \<lparr>fract = Some f, ratio = r, ratio2 = r2, ratio3 = r3\<rparr>
     = calcADPAxes eigh atoms \<lparr>fract = Some f, ratio = None, ratio2 = None, ratio3 = None\<rparr> \<and>
   (recs \<noteq> [] \<and> \<not> (33 / 100 < f \<and> f < 1) \<longrightarrow>
      calcADPAxes eigh (Some recs) \<lparr>fract = Some f, ratio = r, ratio2 = r2, ratio3 = r3\<rparr>
        = Inl AssertionError) \<and>
   (i < length recs \<and> 33 / 100 < f \<and> f < 1 \<longrightarrow>
      (\<exists>out raw.
         calcADPAxes eigh (Some recs) \<lparr>fract = Some f, ratio = r, ratio2 = r2, ratio3 = r3\<rparr>
           = Inr out \<and>
         calcADPAxes eigh (Some recs) no_filter = Inr raw \<and>
         length out = length recs \<and> length raw = length recs \<and>
         out ! i = (if share_exceeds f (clamped_eigenvalues eigh (recs ! i))
                    then raw ! i else mzero)))"
proof -
  let ?kw = "\<lparr>fract = Some f, ratio = r, ratio2 = r2, ratio3 = r3\<rparr>"
  have a: "calcADPAxes eigh atoms ?kw
             = calcADPAxes eigh atoms \<lparr>fract = Some f, ratio = None, ratio2 = None, ratio3 = None\<rparr>"
    by (simp add: calcADPAxes_def Let_def split: option.splits list.splits)
  have b: "calcADPAxes eigh (Some recs) ?kw = Inl AssertionError"
    if "recs \<noteq> []" and "\<not> (33 / 100 < f \<and> f < 1)"
  proof -
    from that(1) obtain a0 rest where "recs = a0 # rest"
      by (cases recs) auto
    with that(2) show ?thesis
      by (simp add: calcADPAxes_fract fract_filter_def)
  qed
  have c: "\<exists>out raw.
             calcADPAxes eigh (Some recs) ?kw = Inr out \<and>
             calcADPAxes eigh (Some recs) no_filter = Inr raw \<and>
             length out = length recs \<and> length raw = length recs \<and>
             out ! i = (if share_exceeds f (clamped_eigenvalues eigh (recs ! i))
                        then raw ! i else mzero)"
    if il: "i < length recs" and f1: "33 / 100 < f" and f2: "f < 1"
  proof -
    from il obtain a0 rest where recs: "recs = a0 # rest"
      by (cases recs) auto
    define rs where "rs = first_atom eigh a0 # axes_loop eigh (snd (first_atom eigh a0)) rest"
    define axes where "axes = map (\<lambda>r. rev_cols (snd r)) rs"
    have len: "length rs = length recs"
      by (simp add: rs_def recs length_axes_loop)
    have vars: "map fst rs = map (clamped_eigenvalues eigh) recs"
      by (simp add: rs_def recs fst_first_atom variances_axes_loop)
    have raw: "calcADPAxes eigh (Some recs) no_filter = Inr axes"
      by (simp add: recs calcADPAxes_no_filter axes_def rs_def)
    have filt: "calcADPAxes eigh (Some recs) ?kw = fract_filter f (map fst rs) axes"
      by (simp add: recs calcADPAxes_fract axes_def rs_def)
    have i: "i < length axes" and ll: "length (map fst rs) = length axes"
      using il len by (simp_all add: axes_def)
    from fract_filter_nth [OF f1 f2 ll i]
    obtain out where out: "fract_filter f (map fst rs) axes = Inr out"
      and lo: "length out = length axes"
      and oi: "out ! i = mask_block (div_gt (pick 0 (rev3 (map fst rs ! i)))
                                      (vtotal (rev3 (map fst rs ! i))) f) (axes ! i)"
      by blast
    have vi: "map fst rs ! i = clamped_eigenvalues eigh (recs ! i)"
      using il by (simp add: vars)
    have "out ! i = (if share_exceeds f (clamped_eigenvalues eigh (recs ! i))
                     then axes ! i else mzero)"
      unfolding oi vi torf_fract [OF refl]
      by (simp add: mask_block_True mask_block_False)
    with raw filt out lo len show ?thesis
      by (simp add: axes_def)
  qed
  from a b c show ?thesis by blast
qed

text \<open>Two atoms with eigenvalues 1, 4, 16 and 0, 9, 16, with \<^verbatim>\<open>fract\<close> 0.7 and
  \<^verbatim>\<open>ratio\<close> 1/32 in the same call. The shares of the largest eigenvalue are 16/21 and
  16/25: the fraction filter keeps the first atom and zeroes the second, and so does the
  call. The ratio filter alone does the opposite, the ratios being 1/16 and 0.\<close>

theorem fract_overrides_ratio_witness:
  "calcADPAxes eigh_diagonal (Some [(1, 4, 16, 0, 0, 0), (0, 9, 16, 0, 0, 0)])
       \<lparr>fract = Some (7 / 10), ratio = Some (1 / 32), ratio2 = None, ratio3 = None\<rparr>
     = Inr [((0, 0, 1), (0, 2, 0), (4, 0, 0)), mzero] \<and>
   calcADPAxes eigh_diagonal (Some [(1, 4, 16, 0, 0, 0), (0, 9, 16, 0, 0, 0)])
       \<lparr>fract = None, ratio = Some (1 / 32), ratio2 = None, ratio3 = None\<rparr>
     = Inr [mzero, ((0, 0, 0), (0, 3, 0), (4, 0, 0))] \<and>
   calcADPAxes eigh_diagonal (Some [(1, 4, 16, 0, 0, 0), (0, 9, 16, 0, 0, 0)])
       \<lparr>fract = Some 2, ratio = Some (1 / 32), ratio2 = None, ratio3 = None\<rparr>
     = Inl AssertionError"
proof -
  let ?recs = "[(1, 4, 16, 0, 0, 0), (0, 9, 16, 0, 0, 0)] :: anisou list"
  let ?kw = "\<lparr>fract = Some (7 / 10), ratio = Some (1 / 32), ratio2 = None, ratio3 = None\<rparr>"
  have raw: "calcADPAxes eigh_diagonal (Some ?recs) no_filter
               = Inr [((0, 0, 1), (0, 2, 0), (4, 0, 0)), ((0, 0, 0), (0, 3, 0), (4, 0, 0))]"
    by (simp add: calcADPAxes_no_filter first_atom_def next_atom_def Let_def clamp0_def
          mident_def sqrt_9 sqrt_16)
  have e0: "clamped_eigenvalues eigh_diagonal (?recs ! 0) = (1, 4, 16)"
    and e1: "clamped_eigenvalues eigh_diagonal (?recs ! 1) = (0, 9, 16)"
    by (simp_all add: clamped_eigenvalues_def clamp0_def)
  note th0 = fract_overrides_ratio
               [of eigh_diagonal "Some ?recs" "7 / 10" "Some (1 / 32)" None None ?recs 0]
  note th1 = fract_overrides_ratio
               [of eigh_diagonal "Some ?recs" "7 / 10" "Some (1 / 32)" None None ?recs 1]
  note th2 = fract_overrides_ratio
               [of eigh_diagonal "Some ?recs" 2 "Some (1 / 32)" None None ?recs 0]
  have p0: "0 < length ?recs \<and> 33 / 100 < (7 / 10 :: real) \<and> (7 / 10 :: real) < 1"
    and p1: "1 < length ?recs \<and> 33 / 100 < (7 / 10 :: real) \<and> (7 / 10 :: real) < 1"
    and p2: "?recs \<noteq> [] \<and> \<not> (33 / 100 < (2 :: real) \<and> (2 :: real) < 1)"
    by simp_all
  from th0 [THEN conjunct2, THEN conjunct2, rule_format, OF p0]
  obtain out0 raw0 where o0: "calcADPAxes eigh_diagonal (Some ?recs) ?kw = Inr out0"
    and r0: "calcADPAxes eigh_diagonal (Some ?recs) no_filter = Inr raw0"
    and l0: "length out0 = length ?recs"
    and v0: "out0 ! 0 = (if share_exceeds (7 / 10) (clamped_eigenvalues eigh_diagonal (?recs ! 0))
                         then raw0 ! 0 else mzero)"
    by blast
  from th1 [THEN conjunct2, THEN conjunct2, rule_format, OF p1]
  obtain out1 raw1 where o1: "calcADPAxes eigh_diagonal (Some ?recs) ?kw = Inr out1"
    and r1: "calcADPAxes eigh_diagonal (Some ?recs) no_filter = Inr raw1"
    and v1: "out1 ! 1 = (if share_exceeds (7 / 10) (clamped_eigenvalues eigh_diagonal (?recs ! 1))
                         then raw1 ! 1 else mzero)"
    by blast
  from r0 raw have raw0: "raw0 = [((0, 0, 1), (0, 2, 0), (4, 0, 0)), ((0, 0, 0), (0, 3, 0), (4, 0, 0))]"
    by simp
  from o0 o1 have same: "out1 = out0" by simp
  have w0: "out0 ! 0 = ((0, 0, 1), (0, 2, 0), (4, 0, 0))"
    using v0 unfolding e0 raw0 by (simp add: share_exceeds_def)
  have w1: "out0 ! 1 = mzero"
    using v1 unfolding e1 same by (simp add: share_exceeds_def)
  from l0 w0 w1 have "out0 = [((0, 0, 1), (0, 2, 0), (4, 0, 0)), mzero]"
    by (cases out0; cases "tl out0") (auto simp add: nth_Cons')
  with o0 have a: "calcADPAxes eigh_diagonal (Some ?recs) ?kw
                     = Inr [((0, 0, 1), (0, 2, 0), (4, 0, 0)), mzero]"
    by simp
  have b: "calcADPAxes eigh_diagonal (Some ?recs)
               \<lparr>fract = None, ratio = Some (1 / 32), ratio2 = None, ratio3 = None\<rparr>
             = Inr [mzero, ((0, 0, 0), (0, 3, 0), (4, 0, 0))]"
    by (simp add: calcADPAxes_def first_atom_def next_atom_def Let_def clamp0_def mident_def
          ratio_filter_def div_le_def mask_block_def sqrt_9 sqrt_16 mzero_def vzero_def)
  note c = th2 [THEN conjunct2, THEN conjunct1, rule_format, OF p2]
  from a b c show ?thesis by blast
qed


section \<open>Sign continuity of the axes\<close>

text \<open>The loop body multiplies every axis of the atom, as the statements before the loop
  would store it, by the sign of the sum of the products of its eigenvector with the stored
  axis of the previous atom: by -1 for a negative sum, by 1 for a positive one, and by 0
  for a sum of zero.\<close>

lemma next_atom_signs:
  "eigh (element_of a) = (vals, vecs) \<Longrightarrow>
   next_atom eigh prev a =
     (fst (first_atom eigh a),
      scale_cols (vmap sgn (col_dots vecs prev)) (snd (first_atom eigh a)))"
proof -
  assume e: "eigh (element_of a) = (vals, vecs)"
  obtain x y z where v: "vmap sqrt (vmap clamp0 vals) = (x, y, z)"
    by (cases "vmap sqrt (vmap clamp0 vals)" rule: prod_cases3)
  obtain p q r where d: "vmap sgn (col_dots vecs prev) = (p, q, r)"
    by (cases "vmap sgn (col_dots vecs prev)" rule: prod_cases3)
  obtain a1 a2 a3 a4 a5 a6 a7 a8 a9
    where m: "vecs = ((a1, a2, a3), (a4, a5, a6), (a7, a8, a9))"
    by (rule mat3_cases)
  show ?thesis
    by (simp add: next_atom_def first_atom_def e Let_def v d) (simp add: m algebra_simps)
qed

lemma sum_squares_pos:
  "a \<noteq> 0 \<or> b \<noteq> 0 \<or> c \<noteq> 0 \<Longrightarrow> 0 < a * a + b * b + c * (c :: real)"
proof -
  assume nz: "a \<noteq> 0 \<or> b \<noteq> 0 \<or> c \<noteq> 0"
  have "0 \<le> a * a" and "0 \<le> b * b" and "0 \<le> c * c"
    by simp_all
  moreover from nz have "0 < a * a \<or> 0 < b * b \<or> 0 < c * c"
    by (auto simp add: zero_less_mult_iff)
  ultimately show ?thesis by linarith
qed

lemma sgn_scaled_column:
  assumes "0 < x" and "a \<noteq> 0 \<or> b \<noteq> 0 \<or> c \<noteq> 0"
  shows "sgn (a * (x * sgn p * a) + (b * (x * sgn p * b) + c * (x * sgn p * c))) = sgn (p :: real)"
proof -
  have e: "a * (x * sgn p * a) + (b * (x * sgn p * b) + c * (x * sgn p * c))
             = sgn p * (x * (a * a + b * b + c * c))"
    by (simp add: algebra_simps)
  have "0 < x * (a * a + b * b + c * c)"
    using assms sum_squares_pos [of a b c] by simp
  then have "sgn (x * (a * a + b * b + c * c)) = 1"
    by simp
  then show ?thesis
    unfolding e sgn_mult [of "sgn p"] by simp
qed

lemma sqrt_clamp0_pos: "clamp0 v \<noteq> 0 \<Longrightarrow> 0 < sqrt (clamp0 v)"
  by (simp add: clamp0_def split: if_splits)

lemma flipped_column:
  "(a = 0 \<and> b = 0 \<and> c = 0) \<or> clamp0 v = 0 \<or>
   sgn (a * (sqrt (clamp0 v) * sgn p * a) +
        (b * (sqrt (clamp0 v) * sgn p * b) + c * (sqrt (clamp0 v) * sgn p * c))) = sgn p"
  using sgn_scaled_column [of "sqrt (clamp0 v)" a b c p] sqrt_clamp0_pos [of v] by blast

lemma unflipped_column:
  "(a = 0 \<and> b = 0 \<and> c = 0) \<or> clamp0 v = 0 \<or>
   sgn (a * (sqrt (clamp0 v) * a) + (b * (sqrt (clamp0 v) * b) + c * (sqrt (clamp0 v) * c))) = 1"
  using sgn_scaled_column [of "sqrt (clamp0 v)" a b c 1] sqrt_clamp0_pos [of v] by auto

text \<open>Two consecutive identical tensor records: the axes stored for the second point are
  those stored for the first, whether the first is atom 0 or a later atom.\<close>

lemma identical_record_keeps_axes:
  "next_atom eigh (snd (next_atom eigh prev a)) a = next_atom eigh prev a"
proof -
  obtain vals vecs where e: "eigh (element_of a) = (vals, vecs)"
    by (cases "eigh (element_of a)")
  obtain v0 v1 v2 where vals: "vals = (v0, v1, v2)"
    by (cases vals rule: prod_cases3)
  obtain p q r where d: "col_dots vecs prev = (p, q, r)"
    by (cases "col_dots vecs prev" rule: prod_cases3)
  obtain a1 a2 a3 a4 a5 a6 a7 a8 a9
    where m: "vecs = ((a1, a2, a3), (a4, a5, a6), (a7, a8, a9))"
    by (rule mat3_cases)
  have "next_atom eigh (snd (next_atom eigh prev a)) a = next_atom eigh prev a \<longleftrightarrow>
        ((a1 = 0 \<and> a4 = 0 \<and> a7 = 0) \<or> clamp0 v0 = 0 \<or>
         sgn (a1 * (sqrt (clamp0 v0) * sgn p * a1) +
           (a4 * (sqrt (clamp0 v0) * sgn p * a4) + a7 * (sqrt (clamp0 v0) * sgn p * a7))) = sgn p) \<and>
        ((a2 = 0 \<and> a5 = 0 \<and> a8 = 0) \<or> clamp0 v1 = 0 \<or>
         sgn (a2 * (sqrt (clamp0 v1) * sgn q * a2) +
           (a5 * (sqrt (clamp0 v1) * sgn q * a5) + a8 * (sqrt (clamp0 v1) * sgn q * a8))) = sgn q) \<and>
        ((a3 = 0 \<and> a6 = 0 \<and> a9 = 0) \<or> clamp0 v2 = 0 \<or>
         sgn (a3 * (sqrt (clamp0 v2) * sgn r * a3) +
           (a6 * (sqrt (clamp0 v2) * sgn r * a6) + a9 * (sqrt (clamp0 v2) * sgn r * a9))) = sgn r)"
    apply (simp add: next_atom_def e vals Let_def)
    apply (simp add: m d[unfolded m])
    apply blast
    done
  then show ?thesis
    using flipped_column [of a1 a4 a7 v0 p] flipped_column [of a2 a5 a8 v1 q]
      flipped_column [of a3 a6 a9 v2 r]
    by blast
qed

lemma second_identical_record_keeps_axes:
  "snd (next_atom eigh (snd (first_atom eigh a)) a) = snd (first_atom eigh a)"
proof -
  obtain vals vecs where e: "eigh (element_of a) = (vals, vecs)"
    by (cases "eigh (element_of a)")
  obtain v0 v1 v2 where vals: "vals = (v0, v1, v2)"
    by (cases vals rule: prod_cases3)
  obtain a1 a2 a3 a4 a5 a6 a7 a8 a9
    where m: "vecs = ((a1, a2, a3), (a4, a5, a6), (a7, a8, a9))"
    by (rule mat3_cases)
  have "snd (next_atom eigh (snd (first_atom eigh a)) a) = snd (first_atom eigh a) \<longleftrightarrow>
        ((a1 = 0 \<and> a4 = 0 \<and> a7 = 0) \<or> clamp0 v0 = 0 \<or>
         sgn (a1 * (sqrt (clamp0 v0) * a1) +
           (a4 * (sqrt (clamp0 v0) * a4) + a7 * (sqrt (clamp0 v0) * a7))) = 1) \<and>
        ((a2 = 0 \<and> a5 = 0 \<and> a8 = 0) \<or> clamp0 v1 = 0 \<or>
         sgn (a2 * (sqrt (clamp0 v1) * a2) +
           (a5 * (sqrt (clamp0 v1) * a5) + a8 * (sqrt (clamp0 v1) * a8))) = 1) \<and>
        ((a3 = 0 \<and> a6 = 0 \<and> a9 = 0) \<or> clamp0 v2 = 0 \<or>
         sgn (a3 * (sqrt (clamp0 v2) * a3) +
           (a6 * (sqrt (clamp0 v2) * a6) + a9 * (sqrt (clamp0 v2) * a9))) = 1)"
    apply (simp add: next_atom_def first_atom_def e vals Let_def)
    apply (simp add: m)
    apply blast
    done
  then show ?thesis
    using unflipped_column [of a1 a4 a7 v0] unflipped_column [of a2 a5 a8 v1]
      unflipped_column [of a3 a6 a9 v2]
    by blast
qed

text \<open>
  Claim C7 at a concrete input. Two diagonal tensor records with eigenvalues -1, 1, 4 and
  1, 4, 9: the negative eigenvalue of the first atom is clamped to 0 and its axis is the
  zero vector, so the sum of products for the corresponding axis of the second atom is 0,
  which is not negative, whatever the sign of the eigenvector. That axis of the second
  atom, (1,0,0) when the atom is alone, is stored as the zero vector: neither flipped nor
  left unchanged.
\<close>

theorem zero_dot_product_zeroes_axis:
  "calcADPAxes eigh_diagonal (Some [(-1, 1, 4, 0, 0, 0), (1, 4, 9, 0, 0, 0)]) no_filter
     = Inr [((0, 0, 0), (0, 1, 0), (2, 0, 0)), ((0, 0, 0), (0, 2, 0), (3, 0, 0))] \<and>
   calcADPAxes eigh_diagonal (Some [(1, 4, 9, 0, 0, 0)]) no_filter
     = Inr [((0, 0, 1), (0, 2, 0), (3, 0, 0))] \<and>
   col_dots (snd (eigh_diagonal (element_of (1, 4, 9, 0, 0, 0))))
       (snd (first_atom eigh_diagonal (-1, 1, 4, 0, 0, 0)))
     = (0, 1, 2)"
  by (simp add: calcADPAxes_no_filter first_atom_def next_atom_def Let_def clamp0_def
        mident_def sqrt_9)


section \<open>Radius of gyration with weights\<close>

text \<open>
  Claim C3 at two concrete inputs. For the two points (-1,0,0) and (1,0,0) with weights
  1, 1 the radius of gyration of the claim is 1; \<^verbatim>\<open>calcRadiusOfGyration\<close> raises
  \<^verbatim>\<open>ValueError\<close>, since the product of the (2,3) coordinates with the flattened weights
  of shape (2,) cannot be broadcast. For the three points (3,0,0), (0,0,0), (0,0,0) with
  weights 1, 1, 1 the claim gives the square root of 2, as does the function without
  weights; with the weights it returns the square root of 22/9, since it takes the mean
  of the weighted coordinates and divides it by the sum of the weights once more.
\<close>

theorem weighted_gyration_diverges:
  "calcRadiusOfGyration (Frame [(-1, 0, 0), (1, 0, 0)]) (Some [1, 1]) = Inl ValueError \<and>
   radius_of_gyration [(-1, 0, 0), (1, 0, 0)] [1, 1] = 1 \<and>
   calcRadiusOfGyration (Frame [(3, 0, 0), (0, 0, 0), (0, 0, 0)]) (Some [1, 1, 1])
     = Inr (Scalar (sqrt (22 / 9))) \<and>
   radius_of_gyration [(3, 0, 0), (0, 0, 0), (0, 0, 0)] [1, 1, 1] = sqrt 2 \<and>
   calcRadiusOfGyration (Frame [(3, 0, 0), (0, 0, 0), (0, 0, 0)]) None = Inr (Scalar (sqrt 2)) \<and>
   sqrt (22 / 9) \<noteq> sqrt 2"
proof -
  have a: "calcRadiusOfGyration (Frame [(-1, 0, 0), (1, 0, 0)]) (Some [1, 1]) = Inl ValueError"
    by (simp add: calcRadiusOfGyration_def gyration_body_def gyration_d2sum_def bcast_mul_def)
  have b: "radius_of_gyration [(-1, 0, 0), (1, 0, 0)] [1, 1] = 1"
    by (simp add: radius_of_gyration_def weighted_centroid_def vec_of_entries_def
          sq_distance_def)
  have c: "calcRadiusOfGyration (Frame [(3, 0, 0), (0, 0, 0), (0, 0, 0)]) (Some [1, 1, 1])
             = Inr (Scalar (sqrt (22 / 9)))"
    by (simp add: calcRadiusOfGyration_def gyration_body_def gyration_d2sum_def bcast_mul_def
          mean0_def vzero_def sub_rows_def squares_def Let_def)
  have d: "radius_of_gyration [(3, 0, 0), (0, 0, 0), (0, 0, 0)] [1, 1, 1] = sqrt 2"
    by (simp add: radius_of_gyration_def weighted_centroid_def vec_of_entries_def
          sq_distance_def)
  have e: "calcRadiusOfGyration (Frame [(3, 0, 0), (0, 0, 0), (0, 0, 0)]) None
             = Inr (Scalar (sqrt 2))"
    by (simp add: calcRadiusOfGyration_def gyration_body_def gyration_d2sum_def
          mean0_def vzero_def sub_rows_def squares_def arr_sum_def Let_def)
  have f: "sqrt (22 / 9) \<noteq> sqrt 2"
    by simp
  from a b c d e f show ?thesis by blast
qed

end
